theory Spec2Isabelle
  imports Complex_Main
begin

section \<open>The random source\<close>

text \<open>
  The three scripts draw every random number from numpy's process-wide generator
  (\<^verbatim>\<open>np.random.*\<close>).  The generator is made explicit: a value of type \<open>'g\<close> is the
  generator's state, and every sampler takes the state and returns the draw together with
  the next state.  The samplers themselves are parameters of the model, so every theorem
  below holds for whatever sequence of draws the generator produces.

  Python floats are modelled as real numbers; Python ints as \<open>int\<close>.  A Poisson draw is a
  count and has type \<open>nat\<close>.  \<^verbatim>\<open>np.sqrt\<close> is numpy's floating-point square root; it is a
  parameter too, and its results only ever reach the normal sampler as its scale.
\<close>

record 'g numpy =
  np_sqrt :: "real \<Rightarrow> real"
  rand_random :: "'g \<Rightarrow> real \<times> 'g"
  rand_uniform :: "real \<Rightarrow> real \<Rightarrow> 'g \<Rightarrow> real \<times> 'g"
  rand_beta :: "real \<Rightarrow> real \<Rightarrow> 'g \<Rightarrow> real \<times> 'g"
  rand_normal :: "real \<Rightarrow> real \<Rightarrow> 'g \<Rightarrow> real \<times> 'g"
  rand_poisson :: "real \<Rightarrow> 'g \<Rightarrow> nat \<times> 'g"
  rand_binomial :: "int \<Rightarrow> real \<Rightarrow> 'g \<Rightarrow> int \<times> 'g"
  rand_seed :: "int \<Rightarrow> 'g"

datatype py_error = ValueError | ZeroDivisionError | OverflowError

section \<open>Per-shipment simulation: \<^verbatim>\<open>distribution_mc.py\<close>\<close>

text \<open>The stage probabilities drawn at the top of \<^verbatim>\<open>simulate_imported_drugs\<close>.\<close>

record imported_probs =
  p_counterfeit :: real
  p_seized_export_counterfeit :: real
  p_seized_export_legit :: real
  p_seized_import_counterfeit :: real
  p_seized_import_legit :: real
  p_warehouse_theft :: real
  p_last_mile_theft :: real

definition draw_imported_probs :: "'g numpy \<Rightarrow> 'g \<Rightarrow> imported_probs \<times> 'g" where
  "draw_imported_probs S g0 =
     (let (pc, g1) = rand_uniform S 0.1 0.2 g0;
          (pec, g2) = rand_uniform S 0.0001 0.001 g1;
          (pel, g3) = rand_beta S 3 10000 g2;
          (pic, g4) = rand_uniform S 0.001 0.005 g3;
          (pil, g5) = rand_beta S 3 10000 g4;
          (pw, g6) = rand_uniform S 0.0000014 0.00001 g5;
          (pl, g7) = rand_uniform S 0.0001 0.001 g6
      in (\<lparr>p_counterfeit = pc,
           p_seized_export_counterfeit = pec,
           p_seized_export_legit = pel,
           p_seized_import_counterfeit = pic,
           p_seized_import_legit = pil,
           p_warehouse_theft = pw,
           p_last_mile_theft = pl\<rparr>, g7))"

text \<open>The stage probabilities drawn at the top of \<^verbatim>\<open>simulate_local_drugs\<close>.\<close>

record local_probs =
  p_counterfeit_local :: real
  p_warehouse_theft_local :: real
  p_last_mile_theft_local :: real

definition draw_local_probs :: "'g numpy \<Rightarrow> 'g \<Rightarrow> local_probs \<times> 'g" where
  "draw_local_probs S g0 =
     (let (pc, g1) = rand_uniform S 0.1 0.25 g0;
          (pw, g2) = rand_uniform S 0.0000014 0.00001 g1;
          (pl, g3) = rand_uniform S 0.0001 0.001 g2
      in (\<lparr>p_counterfeit_local = pc,
           p_warehouse_theft_local = pw,
           p_last_mile_theft_local = pl\<rparr>, g3))"

text \<open>The counters a run keeps while it loops over the shipments.\<close>

record counters =
  legit_total :: int
  counterfeit_total :: int
  final_legit_on_time :: int
  final_counterfeit_on_time :: int

definition counters0 :: counters where
  "counters0 = \<lparr>legit_total = 0, counterfeit_total = 0,
                final_legit_on_time = 0, final_counterfeit_on_time = 0\<rparr>"

text \<open>
  \<^verbatim>\<open>num_stops = max(1, np.random.poisson(lambda_stops))\<close>, with \<open>lambda_stops = 3\<close> on the
  imported path and \<open>lambda_stops = 1\<close> on the local path.
\<close>

definition draw_num_stops :: "'g numpy \<Rightarrow> real \<Rightarrow> 'g \<Rightarrow> nat \<times> 'g" where
  "draw_num_stops S lambda_stops g =
     (let (k, g') = rand_poisson S lambda_stops g in (max 1 k, g'))"

definition imported_num_stops :: "'g numpy \<Rightarrow> 'g \<Rightarrow> nat \<times> 'g" where
  "imported_num_stops S g = draw_num_stops S 3 g"

definition local_num_stops :: "'g numpy \<Rightarrow> 'g \<Rightarrow> nat \<times> 'g" where
  "local_num_stops S g = draw_num_stops S 1 g"

text \<open>
  The loop \<^verbatim>\<open>for _stop in range(num_stops)\<close>: each stop adds a normal draw to the transit
  time and then checks for warehouse theft; a theft sets \<open>stolen\<close> and breaks.  The result
  is the transit time, the flag \<open>stolen\<close> and the generator state after the loop.
\<close>

fun stops_loop :: "'g numpy \<Rightarrow> real \<Rightarrow> nat \<Rightarrow> real \<Rightarrow> 'g \<Rightarrow> real \<times> bool \<times> 'g" where
  "stops_loop S p 0 transit_time g = (transit_time, False, g)"
| "stops_loop S p (Suc n) transit_time g =
     (let (extra_time, g1) = rand_normal S 0.5 (np_sqrt S 0.6) g;
          transit_time' = transit_time + extra_time;
          (u, g2) = rand_random S g1
      in if u < p then (transit_time', True, g2)
         else stops_loop S p n transit_time' g2)"

text \<open>
  One iteration of \<^verbatim>\<open>for _ in range(N)\<close> in \<^verbatim>\<open>simulate_imported_drugs\<close>.  Every
  \<^verbatim>\<open>continue\<close> of the source is a branch that returns the counters as they are at that
  point.  The two seizure checks draw one number whatever the class is and compare it with
  the probability of the shipment's class.
\<close>

definition imported_shipment ::
  "'g numpy \<Rightarrow> imported_probs \<Rightarrow> counters \<times> 'g \<Rightarrow> counters \<times> 'g" where
  "imported_shipment S P = (\<lambda>(c, g0).
     let (u1, g1) = rand_random S g0;
         is_counterfeit = (u1 < p_counterfeit P);
         c1 = (if is_counterfeit then c\<lparr>counterfeit_total := counterfeit_total c + 1\<rparr>
               else c\<lparr>legit_total := legit_total c + 1\<rparr>);
         (u2, g2) = rand_random S g1
     in if u2 < (if is_counterfeit then p_seized_export_counterfeit P
                 else p_seized_export_legit P)
        then (c1, g2)
        else
          let (base, g3) = rand_normal S 4.74 (np_sqrt S 0.785) g2;
              (u3, g4) = rand_random S g3
          in if u3 < (if is_counterfeit then p_seized_import_counterfeit P
                      else p_seized_import_legit P)
             then (c1, g4)
             else
               let (num_stops, g5) = imported_num_stops S g4;
                   (transit_time, stolen, g6) =
                      stops_loop S (p_warehouse_theft P) num_stops base g5
               in if stolen then (c1, g6)
                  else
                    let (u4, g7) = rand_random S g6
                    in if u4 < p_last_mile_theft P then (c1, g7)
                       else if transit_time < 7
                         then (if is_counterfeit
                               then (c1\<lparr>final_counterfeit_on_time :=
                                          final_counterfeit_on_time c1 + 1\<rparr>, g7)
                               else (c1\<lparr>final_legit_on_time :=
                                          final_legit_on_time c1 + 1\<rparr>, g7))
                         else (c1, g7))"

text \<open>One iteration of \<^verbatim>\<open>for _ in range(N)\<close> in \<^verbatim>\<open>simulate_local_drugs\<close>.\<close>

definition local_shipment ::
  "'g numpy \<Rightarrow> local_probs \<Rightarrow> counters \<times> 'g \<Rightarrow> counters \<times> 'g" where
  "local_shipment S P = (\<lambda>(c, g0).
     let (u1, g1) = rand_random S g0;
         is_counterfeit = (u1 < p_counterfeit_local P);
         c1 = (if is_counterfeit then c\<lparr>counterfeit_total := counterfeit_total c + 1\<rparr>
               else c\<lparr>legit_total := legit_total c + 1\<rparr>);
         (num_stops, g2) = local_num_stops S g1;
         (transit_time, stolen, g3) =
            stops_loop S (p_warehouse_theft_local P) num_stops 0 g2
     in if stolen then (c1, g3)
        else
          let (u2, g4) = rand_random S g3
          in if u2 < p_last_mile_theft_local P then (c1, g4)
             else if transit_time < 7
               then (if is_counterfeit
                     then (c1\<lparr>final_counterfeit_on_time :=
                                final_counterfeit_on_time c1 + 1\<rparr>, g4)
                     else (c1\<lparr>final_legit_on_time :=
                                final_legit_on_time c1 + 1\<rparr>, g4))
               else (c1, g4))"

text \<open>
  The dictionary both functions return.  \<^verbatim>\<open>range(N)\<close> is empty for \<open>N \<le> 0\<close>, so the
  loop runs \<open>nat N\<close> times.
\<close>

record results =
  res_final_legit_on_time :: int
  res_final_counterfeit_on_time :: int
  res_final_legit_total :: int
  res_final_counterfeit_total :: int
  res_total_surviving :: int

definition compile_results :: "counters \<Rightarrow> results" where
  "compile_results c =
     \<lparr>res_final_legit_on_time = final_legit_on_time c,
      res_final_counterfeit_on_time = final_counterfeit_on_time c,
      res_final_legit_total = legit_total c,
      res_final_counterfeit_total = counterfeit_total c,
      res_total_surviving = final_legit_on_time c + final_counterfeit_on_time c\<rparr>"

definition simulate_imported_drugs :: "'g numpy \<Rightarrow> int \<Rightarrow> 'g \<Rightarrow> results \<times> 'g" where
  "simulate_imported_drugs S N g0 =
     (let (P, g1) = draw_imported_probs S g0;
          (c, g2) = (imported_shipment S P ^^ nat N) (counters0, g1)
      in (compile_results c, g2))"

definition simulate_local_drugs ::
  "'g numpy \<Rightarrow> int \<Rightarrow> 'g \<Rightarrow> (results \<times> local_probs) \<times> 'g" where
  "simulate_local_drugs S N g0 =
     (let (P, g1) = draw_local_probs S g0;
          (c, g2) = (local_shipment S P ^^ nat N) (counters0, g1)
      in ((compile_results c, P), g2))"

section \<open>Aggregation: \<^verbatim>\<open>main_simulation\<close> of \<^verbatim>\<open>distribution_mc.py\<close>\<close>

text \<open>
  A numpy float is a real number or \<open>nan\<close> (\<open>None\<close>).  \<^verbatim>\<open>np.mean\<close> of an empty list is
  \<open>nan\<close> (numpy warns and does not raise).  Python's \<open>/\<close> on two ints raises
  \<^verbatim>\<open>ZeroDivisionError\<close> when the divisor is zero.
\<close>

type_synonym npfloat = "real option"

definition np_mean :: "real list \<Rightarrow> npfloat" where
  "np_mean xs = (if xs = [] then None else Some (sum_list xs / real (length xs)))"

definition py_truediv :: "int \<Rightarrow> int \<Rightarrow> py_error + real" where
  "py_truediv a b = (if b = 0 then Inl ZeroDivisionError else Inr (real_of_int a / real_of_int b))"

definition bind_err :: "'e + 'a \<Rightarrow> ('a \<Rightarrow> 'e + 'b) \<Rightarrow> 'e + 'b" where
  "bind_err r f = (case r of Inl e \<Rightarrow> Inl e | Inr v \<Rightarrow> f v)"

text \<open>
  The guarded quotient the aggregators write inline for every class:
  \<^verbatim>\<open>on_time / total if total > 0 else 0\<close>.
\<close>

definition guarded_fraction :: "int \<Rightarrow> int \<Rightarrow> real" where
  "guarded_fraction on_time class_total =
     (if class_total > 0 then real_of_int on_time / real_of_int class_total else 0)"

text \<open>The eight lists \<^verbatim>\<open>main_simulation\<close> appends to, and the dictionary of their means.\<close>

record mc_lists =
  imported_legit_arrivals :: "real list"
  imported_counterfeit_arrivals :: "real list"
  local_legit_arrivals :: "real list"
  local_counterfeit_arrivals :: "real list"
  imported_legit_fraction :: "real list"
  imported_counterfeit_fraction :: "real list"
  local_legit_fraction :: "real list"
  local_counterfeit_fraction :: "real list"

definition mc_lists0 :: mc_lists where
  "mc_lists0 = \<lparr>imported_legit_arrivals = [], imported_counterfeit_arrivals = [],
                local_legit_arrivals = [], local_counterfeit_arrivals = [],
                imported_legit_fraction = [], imported_counterfeit_fraction = [],
                local_legit_fraction = [], local_counterfeit_fraction = []\<rparr>"

record results_summary =
  imported_mean_legit_fraction :: npfloat
  imported_mean_counterfeit_fraction :: npfloat
  local_mean_legit_fraction :: npfloat
  local_mean_counterfeit_fraction :: npfloat
  imported_legit_on_time :: npfloat
  imported_counterfeit_on_time :: npfloat
  local_legit_on_time :: npfloat
  local_counterfeit_on_time :: npfloat

text \<open>
  The fractions of one run, from the two result dictionaries.  The four divisions by \<open>N\<close>
  are unguarded; the first of them raises when \<open>N = 0\<close>.
\<close>

definition append_fractions :: "int \<Rightarrow> results \<Rightarrow> results \<Rightarrow> mc_lists \<Rightarrow> py_error + mc_lists" where
  "append_fractions N imported_res local_res L =
     bind_err (py_truediv (res_final_legit_total imported_res) N) (\<lambda>frac_legit_imported.
     bind_err (py_truediv (res_final_counterfeit_total imported_res) N) (\<lambda>frac_counterfeit_imported.
     let frac_legit_arrived =
           guarded_fraction (res_final_legit_on_time imported_res) (res_final_legit_total imported_res);
         frac_counterfeit_arrived =
           guarded_fraction (res_final_counterfeit_on_time imported_res)
             (res_final_counterfeit_total imported_res)
     in
     bind_err (py_truediv (res_final_legit_total local_res) N) (\<lambda>frac_legit_local.
     bind_err (py_truediv (res_final_counterfeit_total local_res) N) (\<lambda>frac_counterfeit_local.
     let frac_legit_local_arrived =
           guarded_fraction (res_final_legit_on_time local_res) (res_final_legit_total local_res);
         frac_counterfeit_local_arrived =
           guarded_fraction (res_final_counterfeit_on_time local_res)
             (res_final_counterfeit_total local_res)
     in Inr \<lparr>imported_legit_arrivals = imported_legit_arrivals L @ [frac_legit_arrived],
             imported_counterfeit_arrivals =
               imported_counterfeit_arrivals L @ [frac_counterfeit_arrived],
             local_legit_arrivals = local_legit_arrivals L @ [frac_legit_local_arrived],
             local_counterfeit_arrivals =
               local_counterfeit_arrivals L @ [frac_counterfeit_local_arrived],
             imported_legit_fraction = imported_legit_fraction L @ [frac_legit_imported],
             imported_counterfeit_fraction =
               imported_counterfeit_fraction L @ [frac_counterfeit_imported],
             local_legit_fraction = local_legit_fraction L @ [frac_legit_local],
             local_counterfeit_fraction =
               local_counterfeit_fraction L @ [frac_counterfeit_local]\<rparr>))))"

text \<open>The loop \<^verbatim>\<open>for _ in range(num_sims)\<close>; an exception in an iteration ends the call.\<close>

fun main_loop :: "'g numpy \<Rightarrow> int \<Rightarrow> nat \<Rightarrow> mc_lists \<Rightarrow> 'g \<Rightarrow> py_error + (mc_lists \<times> 'g)" where
  "main_loop S N 0 L g = Inr (L, g)"
| "main_loop S N (Suc k) L g0 =
     (let (imported_res, g1) = simulate_imported_drugs S N g0;
          ((local_res, PL), g2) = simulate_local_drugs S N g1
      in bind_err (append_fractions N imported_res local_res L) (\<lambda>L'.
         main_loop S N k L' g2))"

definition main_simulation ::
  "'g numpy \<Rightarrow> int \<Rightarrow> int \<Rightarrow> 'g \<Rightarrow> py_error + (results_summary \<times> 'g)" where
  "main_simulation S num_sims N g0 =
     bind_err (main_loop S N (nat num_sims) mc_lists0 g0) (\<lambda>(L, g).
       Inr (\<lparr>imported_mean_legit_fraction = np_mean (imported_legit_fraction L),
              imported_mean_counterfeit_fraction = np_mean (imported_counterfeit_fraction L),
              local_mean_legit_fraction = np_mean (local_legit_fraction L),
              local_mean_counterfeit_fraction = np_mean (local_counterfeit_fraction L),
              imported_legit_on_time = np_mean (imported_legit_arrivals L),
              imported_counterfeit_on_time = np_mean (imported_counterfeit_arrivals L),
              local_legit_on_time = np_mean (local_legit_arrivals L),
              local_counterfeit_on_time = np_mean (local_counterfeit_arrivals L)\<rparr>, g))"

section \<open>Unified missing counter: \<^verbatim>\<open>distribution_regression.py\<close>\<close>

record reg_counters = counters +
  total_transit_time :: real
  arrived_shipments :: int
  final_missing :: int

definition reg_counters0 :: reg_counters where
  "reg_counters0 = \<lparr>legit_total = 0, counterfeit_total = 0,
                    final_legit_on_time = 0, final_counterfeit_on_time = 0,
                    total_transit_time = 0, arrived_shipments = 0, final_missing = 0\<rparr>"

text \<open>
  The stop loop of the regression script: as \<open>stops_loop\<close>, and a warehouse theft also adds
  one to \<open>final_missing\<close> before it breaks.
\<close>

fun stops_loop_reg ::
  "'g numpy \<Rightarrow> real \<Rightarrow> nat \<Rightarrow> real \<Rightarrow> int \<Rightarrow> 'g \<Rightarrow> real \<times> bool \<times> int \<times> 'g" where
  "stops_loop_reg S p 0 transit_time missing g = (transit_time, False, missing, g)"
| "stops_loop_reg S p (Suc n) transit_time missing g =
     (let (extra_time, g1) = rand_normal S 0.5 (np_sqrt S 0.6) g;
          transit_time' = transit_time + extra_time;
          (u, g2) = rand_random S g1
      in if u < p then (transit_time', True, missing + 1, g2)
         else stops_loop_reg S p n transit_time' missing g2)"

definition imported_shipment_reg ::
  "'g numpy \<Rightarrow> imported_probs \<Rightarrow> reg_counters \<times> 'g \<Rightarrow> reg_counters \<times> 'g" where
  "imported_shipment_reg S P = (\<lambda>(c, g0).
     let (u1, g1) = rand_random S g0;
         is_counterfeit = (u1 < p_counterfeit P);
         c1 = (if is_counterfeit then c\<lparr>counterfeit_total := counterfeit_total c + 1\<rparr>
               else c\<lparr>legit_total := legit_total c + 1\<rparr>);
         (u2, g2) = rand_random S g1
     in if u2 < (if is_counterfeit then p_seized_export_counterfeit P
                 else p_seized_export_legit P)
        then (c1\<lparr>final_missing := final_missing c1 + 1\<rparr>, g2)
        else
          let (base, g3) = rand_normal S 4.74 (np_sqrt S 0.785) g2;
              (u3, g4) = rand_random S g3
          in if u3 < (if is_counterfeit then p_seized_import_counterfeit P
                      else p_seized_import_legit P)
             then (c1\<lparr>final_missing := final_missing c1 + 1\<rparr>, g4)
             else
               let (num_stops, g5) = imported_num_stops S g4;
                   (transit_time, stolen, missing, g6) =
                      stops_loop_reg S (p_warehouse_theft P) num_stops base (final_missing c1) g5;
                   c2 = c1\<lparr>final_missing := missing\<rparr>
               in if stolen then (c2, g6)
                  else
                    let (u4, g7) = rand_random S g6
                    in if u4 < p_last_mile_theft P
                       then (c2\<lparr>final_missing := final_missing c2 + 1\<rparr>, g7)
                       else
                         let c3 = c2\<lparr>arrived_shipments := arrived_shipments c2 + 1,
                                     total_transit_time := total_transit_time c2 + transit_time\<rparr>
                         in if transit_time < 7
                            then (if is_counterfeit
                                  then (c3\<lparr>final_counterfeit_on_time :=
                                             final_counterfeit_on_time c3 + 1\<rparr>, g7)
                                  else (c3\<lparr>final_legit_on_time :=
                                             final_legit_on_time c3 + 1\<rparr>, g7))
                            else (c3\<lparr>final_missing := final_missing c3 + 1\<rparr>, g7))"

definition local_shipment_reg ::
  "'g numpy \<Rightarrow> local_probs \<Rightarrow> reg_counters \<times> 'g \<Rightarrow> reg_counters \<times> 'g" where
  "local_shipment_reg S P = (\<lambda>(c, g0).
     let (u1, g1) = rand_random S g0;
         is_counterfeit = (u1 < p_counterfeit_local P);
         c1 = (if is_counterfeit then c\<lparr>counterfeit_total := counterfeit_total c + 1\<rparr>
               else c\<lparr>legit_total := legit_total c + 1\<rparr>);
         (num_stops, g2) = local_num_stops S g1;
         (transit_time, stolen, missing, g3) =
            stops_loop_reg S (p_warehouse_theft_local P) num_stops 0 (final_missing c1) g2;
         c2 = c1\<lparr>final_missing := missing\<rparr>
     in if stolen then (c2, g3)
        else
          let (u2, g4) = rand_random S g3
          in if u2 < p_last_mile_theft_local P
             then (c2\<lparr>final_missing := final_missing c2 + 1\<rparr>, g4)
             else
               let c3 = c2\<lparr>arrived_shipments := arrived_shipments c2 + 1,
                           total_transit_time := total_transit_time c2 + transit_time\<rparr>
               in if transit_time < 7
                  then (if is_counterfeit
                        then (c3\<lparr>final_counterfeit_on_time :=
                                   final_counterfeit_on_time c3 + 1\<rparr>, g4)
                        else (c3\<lparr>final_legit_on_time :=
                                   final_legit_on_time c3 + 1\<rparr>, g4))
                  else (c3\<lparr>final_missing := final_missing c3 + 1\<rparr>, g4))"

record reg_results = results +
  res_final_missing :: int
  res_avg_transit_time :: real

definition compile_results_reg :: "reg_counters \<Rightarrow> reg_results" where
  "compile_results_reg c =
     \<lparr>res_final_legit_on_time = final_legit_on_time c,
      res_final_counterfeit_on_time = final_counterfeit_on_time c,
      res_final_legit_total = legit_total c,
      res_final_counterfeit_total = counterfeit_total c,
      res_total_surviving = final_legit_on_time c + final_counterfeit_on_time c,
      res_final_missing = final_missing c,
      res_avg_transit_time =
        (if arrived_shipments c > 0
         then total_transit_time c / real_of_int (arrived_shipments c) else 0)\<rparr>"

definition simulate_imported_drugs_reg ::
  "'g numpy \<Rightarrow> int \<Rightarrow> 'g \<Rightarrow> (reg_results \<times> imported_probs) \<times> 'g" where
  "simulate_imported_drugs_reg S N g0 =
     (let (P, g1) = draw_imported_probs S g0;
          (c, g2) = (imported_shipment_reg S P ^^ nat N) (reg_counters0, g1)
      in ((compile_results_reg c, P), g2))"

definition simulate_local_drugs_reg ::
  "'g numpy \<Rightarrow> int \<Rightarrow> 'g \<Rightarrow> (reg_results \<times> local_probs) \<times> 'g" where
  "simulate_local_drugs_reg S N g0 =
     (let (P, g1) = draw_local_probs S g0;
          (c, g2) = (local_shipment_reg S P ^^ nat N) (reg_counters0, g1)
      in ((compile_results_reg c, P), g2))"

text \<open>
  A row of the tables \<^verbatim>\<open>main_simulation\<close> builds: the stage probabilities of the run, its
  average transit time and its missing fraction.
\<close>

record 'p row =
  probabilities :: 'p
  avg_transit_time :: real
  missing_frac :: real

fun main_loop_reg ::
  "'g numpy \<Rightarrow> int \<Rightarrow> nat \<Rightarrow> imported_probs row list \<Rightarrow> local_probs row list \<Rightarrow> 'g
     \<Rightarrow> py_error + ((imported_probs row list \<times> local_probs row list) \<times> 'g)" where
  "main_loop_reg S N 0 imported_data local_data g = Inr ((imported_data, local_data), g)"
| "main_loop_reg S N (Suc k) imported_data local_data g0 =
     (let ((imported_res, PI), g1) = simulate_imported_drugs_reg S N g0;
          ((local_res, PL), g2) = simulate_local_drugs_reg S N g1
      in bind_err (py_truediv (res_final_missing imported_res) N) (\<lambda>missing_fraction_imported.
         bind_err (py_truediv (res_final_missing local_res) N) (\<lambda>missing_fraction_local.
         main_loop_reg S N k
           (imported_data @ [\<lparr>probabilities = PI,
                               avg_transit_time = res_avg_transit_time imported_res,
                               missing_frac = missing_fraction_imported\<rparr>])
           (local_data @ [\<lparr>probabilities = PL,
                            avg_transit_time = res_avg_transit_time local_res,
                            missing_frac = missing_fraction_local\<rparr>])
           g2)))"

definition main_simulation_reg ::
  "'g numpy \<Rightarrow> int \<Rightarrow> int \<Rightarrow> 'g
     \<Rightarrow> py_error + ((imported_probs row list \<times> local_probs row list) \<times> 'g)" where
  "main_simulation_reg S num_sims N g0 = main_loop_reg S N (nat num_sims) [] [] g0"

section \<open>Aggregate simulation: \<^verbatim>\<open>distribution_batch.py\<close>\<close>

text \<open>
  numpy checks the parameters of a distribution before it draws.  \<^verbatim>\<open>binomial(n, p)\<close>
  first converts \<open>n\<close> to a C long (64 bits) and raises \<^verbatim>\<open>OverflowError\<close> when it does not
  fit; then it raises \<^verbatim>\<open>ValueError\<close> for \<open>n < 0\<close> and for \<open>p\<close> outside \<open>[0, 1]\<close>.
  \<^verbatim>\<open>poisson(lam)\<close> raises \<^verbatim>\<open>ValueError\<close> for \<open>lam < 0\<close>, and an array of negative size
  cannot be drawn.  An array of \<open>N\<close> normal draws takes \<open>N\<close> successive draws from the
  generator.  The memory an array of \<open>N\<close> draws needs is not modelled, nor is the largest
  \<open>lam\<close> numpy accepts (about \<open>9.2 \<times> 10^18\<close>, out of reach of the rates the script computes
  from an \<open>n\<close> that fits a C long).
\<close>

definition np_binomial :: "'g numpy \<Rightarrow> int \<Rightarrow> real \<Rightarrow> 'g \<Rightarrow> py_error + (int \<times> 'g)" where
  "np_binomial S n p g =
     (if n < - (2 ^ 63) \<or> 2 ^ 63 \<le> n then Inl OverflowError
      else if n < 0 \<or> p < 0 \<or> 1 < p then Inl ValueError
      else Inr (rand_binomial S n p g))"

definition np_poisson :: "'g numpy \<Rightarrow> real \<Rightarrow> 'g \<Rightarrow> py_error + (nat \<times> 'g)" where
  "np_poisson S lam g = (if lam < 0 then Inl ValueError else Inr (rand_poisson S lam g))"

fun normal_draws :: "'g numpy \<Rightarrow> real \<Rightarrow> real \<Rightarrow> nat \<Rightarrow> 'g \<Rightarrow> real list \<times> 'g" where
  "normal_draws S m sd 0 g = ([], g)"
| "normal_draws S m sd (Suc n) g =
     (let (x, g1) = rand_normal S m sd g;
          (xs, g2) = normal_draws S m sd n g1
      in (x # xs, g2))"

definition np_normal_array ::
  "'g numpy \<Rightarrow> real \<Rightarrow> real \<Rightarrow> int \<Rightarrow> 'g \<Rightarrow> py_error + (real list \<times> 'g)" where
  "np_normal_array S m sd n g =
     (if n < 0 then Inl ValueError else Inr (normal_draws S m sd (nat n) g))"

text \<open>
  \<^verbatim>\<open>np.sum(on_time_mask) / N\<close> is a numpy division: for \<open>N = 0\<close> it is \<open>0 / 0 = nan\<close>, with
  a warning and no exception.  \<^verbatim>\<open>int(x)\<close> truncates towards zero and raises
  \<^verbatim>\<open>ValueError\<close> on \<open>nan\<close>.
\<close>

definition np_count_div :: "nat \<Rightarrow> int \<Rightarrow> npfloat" where
  "np_count_div k N = (if N = 0 then None else Some (real k / real_of_int N))"

definition py_int :: "npfloat \<Rightarrow> py_error + int" where
  "py_int x = (case x of None \<Rightarrow> Inl ValueError
               | Some r \<Rightarrow> Inr (if 0 \<le> r then \<lfloor>r\<rfloor> else \<lceil>r\<rceil>))"

text \<open>
  \<^verbatim>\<open>simulate_imported_batch\<close>, statement by statement.  The probabilities are local variables
  here; \<open>p_cf\<close>, \<open>p_export_cf\<close>, \<open>p_export_legit\<close>, \<open>p_import_cf\<close>, \<open>p_import_legit\<close>,
  \<open>p_wh\<close> and \<open>p_lm\<close> stand for \<^verbatim>\<open>p_counterfeit\<close>, \<^verbatim>\<open>p_seized_export_counterfeit\<close>,
  \<^verbatim>\<open>p_seized_export_legit\<close>, \<^verbatim>\<open>p_seized_import_counterfeit\<close>, \<^verbatim>\<open>p_seized_import_legit\<close>,
  \<^verbatim>\<open>p_warehouse_theft\<close> and \<^verbatim>\<open>p_last_mile_theft\<close>.  The result is the tuple
  \<^verbatim>\<open>(final_legit, final_counterfeit, legit_import, counterfeit_import)\<close>.
\<close>

definition simulate_imported_batch ::
  "'g numpy \<Rightarrow> int \<Rightarrow> 'g \<Rightarrow> py_error + ((int \<times> int \<times> int \<times> int) \<times> 'g)" where
  "simulate_imported_batch S N g0 =
     (let (p_cf, g1) = rand_uniform S 0.1 0.2 g0 in
      bind_err (np_binomial S N p_cf g1) (\<lambda>(counterfeit_import, g2).
      let legit_import = N - counterfeit_import;
          (p_export_cf, g3) = rand_uniform S 0.0001 0.001 g2;
          (p_export_legit, g4) = rand_beta S 3 10000 g3;
          lambda_export_counterfeit = real_of_int counterfeit_import * p_export_cf;
          lambda_export_legit = real_of_int legit_import * p_export_legit in
      bind_err (np_poisson S lambda_export_counterfeit g4) (\<lambda>(seized_export_counterfeit, g5).
      bind_err (np_poisson S lambda_export_legit g5) (\<lambda>(seized_export_legit, g6).
      let remaining_counterfeit_export = max 0 (counterfeit_import - int seized_export_counterfeit);
          remaining_legit_export = max 0 (legit_import - int seized_export_legit);
          (p_import_cf, g7) = rand_uniform S 0.001 0.005 g6;
          (p_import_legit, g8) = rand_beta S 3 10000 g7;
          lambda_import_counterfeit = real_of_int remaining_counterfeit_export * p_import_cf;
          lambda_import_legit = real_of_int remaining_legit_export * p_import_legit in
      bind_err (np_poisson S lambda_import_counterfeit g8) (\<lambda>(seized_import_counterfeit, g9).
      bind_err (np_poisson S lambda_import_legit g9) (\<lambda>(seized_import_legit, g10).
      let remaining_counterfeit_import =
            max 0 (remaining_counterfeit_export - int seized_import_counterfeit);
          remaining_legit_import = max 0 (remaining_legit_export - int seized_import_legit) in
      bind_err (np_normal_array S 4.74 (np_sqrt S 0.785) N g10) (\<lambda>(transit_times, g11).
      let frac_on_time = np_count_div (length (filter (\<lambda>t. t < 7) transit_times)) N in
      bind_err (py_int (map_option (\<lambda>f. real_of_int remaining_legit_import * f) frac_on_time))
        (\<lambda>legit_on_time_import.
      bind_err (py_int (map_option (\<lambda>f. real_of_int remaining_counterfeit_import * f) frac_on_time))
        (\<lambda>counterf_on_time_import.
      let (p_wh, g12) = rand_uniform S 0.0000014 0.00001 g11;
          lambda_warehouse_theft_legit = real_of_int legit_on_time_import * p_wh;
          lambda_warehouse_theft_counterfeit = real_of_int counterf_on_time_import * p_wh in
      bind_err (np_poisson S lambda_warehouse_theft_legit g12) (\<lambda>(theft_legit_warehouse, g13).
      bind_err (np_poisson S lambda_warehouse_theft_counterfeit g13)
        (\<lambda>(theft_counterfeit_warehouse, g14).
      let remaining_legit_warehouse = max 0 (legit_on_time_import - int theft_legit_warehouse);
          remaining_counterfeit_warehouse =
            max 0 (counterf_on_time_import - int theft_counterfeit_warehouse);
          (p_lm, g15) = rand_uniform S 0.0001 0.001 g14;
          lambda_last_mile_theft_legit = real_of_int remaining_legit_warehouse * p_lm;
          lambda_last_mile_theft_counterfeit = real_of_int remaining_counterfeit_warehouse * p_lm in
      bind_err (np_poisson S lambda_last_mile_theft_legit g15) (\<lambda>(theft_legit_last_mile, g16).
      bind_err (np_poisson S lambda_last_mile_theft_counterfeit g16)
        (\<lambda>(theft_counterfeit_last_mile, g17).
      let final_legit = max 0 (remaining_legit_warehouse - int theft_legit_last_mile);
          final_counterfeit =
            max 0 (remaining_counterfeit_warehouse - int theft_counterfeit_last_mile)
      in Inr ((final_legit, final_counterfeit, legit_import, counterfeit_import), g17)
      )))))))))))))"

text \<open>The four lists of \<^verbatim>\<open>batch_simulation\<close> and the dictionary it returns.\<close>

record batch_lists =
  batch_legit_arrivals :: "real list"
  batch_counterfeit_arrivals :: "real list"
  batch_legit_total :: "int list"
  batch_counterfeit_total :: "int list"

definition batch_lists0 :: batch_lists where
  "batch_lists0 = \<lparr>batch_legit_arrivals = [], batch_counterfeit_arrivals = [],
                   batch_legit_total = [], batch_counterfeit_total = []\<rparr>"

record batch_summary =
  batch_mean_legit_fraction :: npfloat
  batch_mean_counterfeit_fraction :: npfloat
  batch_legit_on_time :: npfloat
  batch_counterfeit_on_time :: npfloat

definition append_batch :: "int \<times> int \<times> int \<times> int \<Rightarrow> batch_lists \<Rightarrow> batch_lists" where
  "append_batch r L =
     (case r of (imp_legit, imp_counter, imp_legit_tot, imp_counter_tot) \<Rightarrow>
        \<lparr>batch_legit_arrivals =
           batch_legit_arrivals L @ [guarded_fraction imp_legit imp_legit_tot],
         batch_counterfeit_arrivals =
           batch_counterfeit_arrivals L @ [guarded_fraction imp_counter imp_counter_tot],
         batch_legit_total = batch_legit_total L @ [imp_legit_tot],
         batch_counterfeit_total = batch_counterfeit_total L @ [imp_counter_tot]\<rparr>)"

fun batch_loop ::
  "'g numpy \<Rightarrow> int \<Rightarrow> nat \<Rightarrow> batch_lists \<Rightarrow> 'g \<Rightarrow> py_error + (batch_lists \<times> 'g)" where
  "batch_loop S N 0 L g = Inr (L, g)"
| "batch_loop S N (Suc k) L g0 =
     bind_err (simulate_imported_batch S N g0) (\<lambda>(r, g1).
       batch_loop S N k (append_batch r L) g1)"

text \<open>
  \<^verbatim>\<open>np.mean(xs) / N\<close> is a numpy division of a float: \<open>nan\<close> stays \<open>nan\<close>.  A mean that is a
  number is only ever divided by \<open>N \<ge> 1\<close>, since with \<open>N \<le> 0\<close> the first run raises.  What
  the division does with an \<open>N\<close> outside the 64-bit integers is not modelled.
\<close>

definition np_div_int :: "npfloat \<Rightarrow> int \<Rightarrow> npfloat" where
  "np_div_int x N = (case x of None \<Rightarrow> None
                     | Some m \<Rightarrow> if N = 0 then None else Some (m / real_of_int N))"

definition batch_simulation ::
  "'g numpy \<Rightarrow> int \<Rightarrow> int \<Rightarrow> 'g \<Rightarrow> py_error + (batch_summary \<times> 'g)" where
  "batch_simulation S num_sims N g0 =
     bind_err (batch_loop S N (nat num_sims) batch_lists0 g0) (\<lambda>(L, g).
       Inr (\<lparr>batch_mean_legit_fraction =
                np_div_int (np_mean (map real_of_int (batch_legit_total L))) N,
              batch_mean_counterfeit_fraction =
                np_div_int (np_mean (map real_of_int (batch_counterfeit_total L))) N,
              batch_legit_on_time = np_mean (batch_legit_arrivals L),
              batch_counterfeit_on_time = np_mean (batch_counterfeit_arrivals L)\<rparr>, g))"

text \<open>
  What numpy promises of its samplers, as far as the scripts rely on it: a uniform draw
  lies between its bounds, a beta draw in \<open>[0, 1]\<close>, and a binomial draw between \<open>0\<close> and
  the number of trials.
\<close>

definition numpy_contract :: "'g numpy \<Rightarrow> bool" where
  "numpy_contract S \<longleftrightarrow>
     (\<forall>a b g. a \<le> b \<longrightarrow> a \<le> fst (rand_uniform S a b g) \<and> fst (rand_uniform S a b g) \<le> b) \<and>
     (\<forall>a b g. 0 \<le> fst (rand_beta S a b g) \<and> fst (rand_beta S a b g) \<le> 1) \<and>
     (\<forall>n p g. 0 \<le> n \<longrightarrow> 0 \<le> fst (rand_binomial S n p g) \<and> fst (rand_binomial S n p g) \<le> n)"

section \<open>A scripted random source\<close>

text \<open>
  A generator whose state is the list of the numbers it will hand out, one per draw; when
  the list is exhausted every draw is \<open>0\<close>.  A Poisson draw is the floor of the next number
  (at least \<open>0\<close>), a binomial draw the floor clipped to \<open>[0, n]\<close>, a uniform draw the next
  number clipped to its bounds, a beta draw clipped to \<open>[0, 1]\<close>.  Seeding yields the empty
  script, and the square root is not computed (the scripted normal draw ignores its scale).  It serves to run the model on concrete inputs.
\<close>

definition next_draw :: "real list \<Rightarrow> real \<times> real list" where
  "next_draw g = (case g of [] \<Rightarrow> (0, []) | x # xs \<Rightarrow> (x, xs))"

definition scripted :: "real list numpy" where
  "scripted =
     \<lparr>np_sqrt = (\<lambda>x. x),
      rand_random = next_draw,
      rand_uniform = (\<lambda>a b g. (max a (min b (fst (next_draw g))), snd (next_draw g))),
      rand_beta = (\<lambda>a b g. (max 0 (min 1 (fst (next_draw g))), snd (next_draw g))),
      rand_normal = (\<lambda>m sd g. next_draw g),
      rand_poisson = (\<lambda>lam g. (nat \<lfloor>fst (next_draw g)\<rfloor>, snd (next_draw g))),
      rand_binomial = (\<lambda>n p g. (max 0 (min n \<lfloor>fst (next_draw g)\<rfloor>), snd (next_draw g))),
      rand_seed = (\<lambda>seed. [])\<rparr>"

text \<open>
  A script for one call of \<^verbatim>\<open>main_simulation\<close> with one run of two shipments per path, in
  which no shipment is counterfeit and every shipment arrives on time.  First the seven
  imported probabilities, then the draws of two imported shipments (class, export seizure,
  base time, import seizure, stop count, one stop's time and theft check, last mile), then
  the three local probabilities and the draws of two local shipments.
\<close>

definition all_legit_script :: "real list" where
  "all_legit_script =
     [0.15, 0.0005, 0.0003, 0.003, 0.0003, 0.000005, 0.0005,
      0.5, 0.5, 4, 0.5, 0, 0.5, 0.5, 0.5,
      0.5, 0.5, 4, 0.5, 0, 0.5, 0.5, 0.5,
      0.2, 0.000005, 0.0005,
      0.5, 0, 0.5, 0.5, 0.5,
      0.5, 0, 0.5, 0.5, 0.5]"

text \<open>
  A script for one call of \<^verbatim>\<open>simulate_imported_batch\<close> with four shipments: one counterfeit,
  no seizure, three of the four transit times below 7, no theft.
\<close>

definition batch_script :: "real list" where
  "batch_script =
     [0.15, 1,
      0.0005, 0.0003, 0, 0,
      0.003, 0.0003, 0, 0,
      5, 5, 5, 8,
      0.000005, 0, 0,
      0.0005, 0, 0]"

section \<open>The journey of one shipment, as the specification words it\<close>

text \<open>
  The specification describes the fate of a shipment as a pipeline of stages, each of which
  either terminates the shipment or passes it on: classification, export seizure, base
  transit time, import seizure, the stop sequence, last-mile theft, and then the arrival
  check.  The functions below follow that description, not the scripts: they return where
  the pipeline ended, and for a shipment that reached the arrival check its cumulative
  transit time.  They are compared with the scripts' loop bodies further down.
\<close>

datatype stage = Export_seizure | Import_seizure | Warehouse_theft | Last_mile_theft

datatype journey_end = Terminated stage | Arrival_check real

fun journey_stops :: "'g numpy \<Rightarrow> real \<Rightarrow> nat \<Rightarrow> real \<Rightarrow> 'g \<Rightarrow> real option \<times> 'g" where
  "journey_stops S p 0 t g = (Some t, g)"
| "journey_stops S p (Suc n) t g =
     (let (x, g1) = rand_normal S 0.5 (np_sqrt S 0.6) g;
          (u, g2) = rand_random S g1
      in if u < p then (None, g2) else journey_stops S p n (t + x) g2)"

definition journey_imported ::
  "'g numpy \<Rightarrow> imported_probs \<Rightarrow> 'g \<Rightarrow> (bool \<times> journey_end) \<times> 'g" where
  "journey_imported S P g0 =
     (let (u1, g1) = rand_random S g0;
          cf = (u1 < p_counterfeit P);
          (u2, g2) = rand_random S g1
      in if u2 < (if cf then p_seized_export_counterfeit P else p_seized_export_legit P)
         then ((cf, Terminated Export_seizure), g2)
         else
           let (base, g3) = rand_normal S 4.74 (np_sqrt S 0.785) g2;
               (u3, g4) = rand_random S g3
           in if u3 < (if cf then p_seized_import_counterfeit P else p_seized_import_legit P)
              then ((cf, Terminated Import_seizure), g4)
              else
                let (k, g5) = rand_poisson S 3 g4;
                    (r, g6) = journey_stops S (p_warehouse_theft P) (max 1 k) base g5
                in case r of
                     None \<Rightarrow> ((cf, Terminated Warehouse_theft), g6)
                   | Some t \<Rightarrow>
                       let (u4, g7) = rand_random S g6
                       in if u4 < p_last_mile_theft P
                          then ((cf, Terminated Last_mile_theft), g7)
                          else ((cf, Arrival_check t), g7))"

definition journey_local ::
  "'g numpy \<Rightarrow> local_probs \<Rightarrow> 'g \<Rightarrow> (bool \<times> journey_end) \<times> 'g" where
  "journey_local S P g0 =
     (let (u1, g1) = rand_random S g0;
          cf = (u1 < p_counterfeit_local P);
          (k, g2) = rand_poisson S 1 g1;
          (r, g3) = journey_stops S (p_warehouse_theft_local P) (max 1 k) 0 g2
      in case r of
           None \<Rightarrow> ((cf, Terminated Warehouse_theft), g3)
         | Some t \<Rightarrow>
             let (u2, g4) = rand_random S g3
             in if u2 < p_last_mile_theft_local P
                then ((cf, Terminated Last_mile_theft), g4)
                else ((cf, Arrival_check t), g4))"

text \<open>On time: the shipment reached the arrival check in strictly less than 7 days.\<close>

definition on_time_arrival :: "journey_end \<Rightarrow> bool" where
  "on_time_arrival e = (case e of Arrival_check t \<Rightarrow> t < 7 | Terminated s \<Rightarrow> False)"

definition arrivals :: "journey_end \<Rightarrow> int" where
  "arrivals e = (case e of Arrival_check t \<Rightarrow> 1 | Terminated s \<Rightarrow> 0)"

definition arrival_time :: "journey_end \<Rightarrow> real" where
  "arrival_time e = (case e of Arrival_check t \<Rightarrow> t | Terminated s \<Rightarrow> 0)"

definition bump :: "bool \<Rightarrow> int" where
  "bump b = (if b then 1 else 0)"

section \<open>Class totals\<close>

lemma imported_shipment_totals:
  "legit_total (fst (imported_shipment S P cg)) + counterfeit_total (fst (imported_shipment S P cg))
     = legit_total (fst cg) + counterfeit_total (fst cg) + 1"
  by (cases cg) (simp add: imported_shipment_def Let_def split_beta)

lemma local_shipment_totals:
  "legit_total (fst (local_shipment S P cg)) + counterfeit_total (fst (local_shipment S P cg))
     = legit_total (fst cg) + counterfeit_total (fst cg) + 1"
  by (cases cg) (simp add: local_shipment_def Let_def split_beta)

lemma imported_loop_totals:
  "legit_total (fst ((imported_shipment S P ^^ n) cg))
     + counterfeit_total (fst ((imported_shipment S P ^^ n) cg))
     = legit_total (fst cg) + counterfeit_total (fst cg) + int n"
  by (induction n) (simp_all add: imported_shipment_totals)

lemma local_loop_totals:
  "legit_total (fst ((local_shipment S P ^^ n) cg))
     + counterfeit_total (fst ((local_shipment S P ^^ n) cg))
     = legit_total (fst cg) + counterfeit_total (fst cg) + int n"
  by (induction n) (simp_all add: local_shipment_totals)

lemma imported_shipment_reg_totals:
  "legit_total (fst (imported_shipment_reg S P cg)) + counterfeit_total (fst (imported_shipment_reg S P cg))
     = legit_total (fst cg) + counterfeit_total (fst cg) + 1"
  by (cases cg) (simp add: imported_shipment_reg_def Let_def split_beta)

lemma local_shipment_reg_totals:
  "legit_total (fst (local_shipment_reg S P cg)) + counterfeit_total (fst (local_shipment_reg S P cg))
     = legit_total (fst cg) + counterfeit_total (fst cg) + 1"
  by (cases cg) (simp add: local_shipment_reg_def Let_def split_beta)

lemma imported_reg_loop_totals:
  "legit_total (fst ((imported_shipment_reg S P ^^ n) cg))
     + counterfeit_total (fst ((imported_shipment_reg S P ^^ n) cg))
     = legit_total (fst cg) + counterfeit_total (fst cg) + int n"
  by (induction n) (simp_all add: imported_shipment_reg_totals)

lemma local_reg_loop_totals:
  "legit_total (fst ((local_shipment_reg S P ^^ n) cg))
     + counterfeit_total (fst ((local_shipment_reg S P ^^ n) cg))
     = legit_total (fst cg) + counterfeit_total (fst cg) + int n"
  by (induction n) (simp_all add: local_shipment_reg_totals)

lemma batch_totals:
  "simulate_imported_batch S N g = Inr ((fl, fc, lt, ct), g') \<Longrightarrow> lt + ct = N"
  by (auto simp: simulate_imported_batch_def bind_err_def Let_def split: prod.splits sum.splits)

text \<open>
  C1.  A run over \<open>N\<close> shipments returns class totals that add up to \<open>N\<close>: in the
  per-shipment script (imported and local), in the regression script (imported and local),
  and in the batch script whenever it returns.  \<open>N\<close> shipments means \<open>N \<ge> 0\<close>; for a
  negative \<open>N\<close> the per-shipment loops do not run and both totals are \<open>0\<close>.
\<close>

theorem class_totals_partition:
  assumes "0 \<le> N"
  shows "(res_final_legit_total (fst (simulate_imported_drugs S N g))
            + res_final_counterfeit_total (fst (simulate_imported_drugs S N g)) = N)
       \<and> (res_final_legit_total (fst (fst (simulate_local_drugs S N g)))
            + res_final_counterfeit_total (fst (fst (simulate_local_drugs S N g))) = N)
       \<and> (res_final_legit_total (fst (fst (simulate_imported_drugs_reg S N g)))
            + res_final_counterfeit_total (fst (fst (simulate_imported_drugs_reg S N g))) = N)
       \<and> (res_final_legit_total (fst (fst (simulate_local_drugs_reg S N g)))
            + res_final_counterfeit_total (fst (fst (simulate_local_drugs_reg S N g))) = N)
       \<and> (\<forall>final_legit final_counterfeit legit_import counterfeit_import g'.
             simulate_imported_batch S N g
               = Inr ((final_legit, final_counterfeit, legit_import, counterfeit_import), g')
             \<longrightarrow> legit_import + counterfeit_import = N)"
proof -
  have a: "res_final_legit_total (fst (simulate_imported_drugs S N g))
            + res_final_counterfeit_total (fst (simulate_imported_drugs S N g)) = N"
    using assms
    by (simp add: simulate_imported_drugs_def compile_results_def split_beta Let_def
                  counters0_def imported_loop_totals)
  have b: "res_final_legit_total (fst (fst (simulate_local_drugs S N g)))
            + res_final_counterfeit_total (fst (fst (simulate_local_drugs S N g))) = N"
    using assms
    by (simp add: simulate_local_drugs_def compile_results_def split_beta Let_def
                  counters0_def local_loop_totals)
  have c: "res_final_legit_total (fst (fst (simulate_imported_drugs_reg S N g)))
            + res_final_counterfeit_total (fst (fst (simulate_imported_drugs_reg S N g))) = N"
    using assms
    by (simp add: simulate_imported_drugs_reg_def compile_results_reg_def split_beta Let_def
                  reg_counters0_def imported_reg_loop_totals)
  have d: "res_final_legit_total (fst (fst (simulate_local_drugs_reg S N g)))
            + res_final_counterfeit_total (fst (fst (simulate_local_drugs_reg S N g))) = N"
    using assms
    by (simp add: simulate_local_drugs_reg_def compile_results_reg_def split_beta Let_def
                  reg_counters0_def local_reg_loop_totals)
  have e: "\<forall>final_legit final_counterfeit legit_import counterfeit_import g'.
             simulate_imported_batch S N g
               = Inr ((final_legit, final_counterfeit, legit_import, counterfeit_import), g')
             \<longrightarrow> legit_import + counterfeit_import = N"
    by (auto dest: batch_totals)
  show ?thesis by (intro conjI a b c d e)
qed

theorem class_totals_partition_witness:
  "(0::int) \<le> 2
   \<and> res_final_legit_total (fst (simulate_imported_drugs scripted 2 [0.15, 0.5]))
      + res_final_counterfeit_total (fst (simulate_imported_drugs scripted 2 [0.15, 0.5])) = 2
   \<and> res_final_legit_total (fst (fst (simulate_local_drugs_reg scripted 2 [0.15, 0.5])))
      + res_final_counterfeit_total (fst (fst (simulate_local_drugs_reg scripted 2 [0.15, 0.5]))) = 2
   \<and> simulate_imported_batch scripted 2 [0.15, 1, 0.0005, 0.0003, 0, 0, 0.003, 0.0003, 0, 0, 5, 8]
        = Inr ((0, 0, 1, 1), [])"
proof -
  have h: "(0::int) \<le> 2" by simp
  have ev: "simulate_imported_batch scripted 2
              [0.15, 1, 0.0005, 0.0003, 0, 0, 0.003, 0.0003, 0, 0, 5, 8]
            = Inr ((0, 0, 1, 1), [])" by code_simp
  show ?thesis
    using class_totals_partition [OF h, of scripted "[0.15, 0.5]"] ev by simp
qed

section \<open>Terminal statuses in the regression script\<close>

lemma stops_loop_reg_missing:
  "stops_loop_reg S p n t m g = (t', st, m', g') \<Longrightarrow> m' = m + bump st"
  by (induction n arbitrary: t g) (auto simp: bump_def Let_def split: prod.splits if_splits)

lemma imported_shipment_reg_statuses:
  "final_legit_on_time (fst (imported_shipment_reg S P cg))
     + final_counterfeit_on_time (fst (imported_shipment_reg S P cg))
     + final_missing (fst (imported_shipment_reg S P cg))
   = final_legit_on_time (fst cg) + final_counterfeit_on_time (fst cg) + final_missing (fst cg) + 1"
  by (cases cg)
     (auto simp: imported_shipment_reg_def Let_def bump_def
           split: prod.splits dest!: stops_loop_reg_missing)

lemma local_shipment_reg_statuses:
  "final_legit_on_time (fst (local_shipment_reg S P cg))
     + final_counterfeit_on_time (fst (local_shipment_reg S P cg))
     + final_missing (fst (local_shipment_reg S P cg))
   = final_legit_on_time (fst cg) + final_counterfeit_on_time (fst cg) + final_missing (fst cg) + 1"
  by (cases cg)
     (auto simp: local_shipment_reg_def Let_def bump_def
           split: prod.splits dest!: stops_loop_reg_missing)

lemma imported_shipment_reg_nonneg:
  "0 \<le> final_legit_on_time (fst cg) \<and> 0 \<le> final_counterfeit_on_time (fst cg)
     \<and> 0 \<le> final_missing (fst cg) \<Longrightarrow>
   0 \<le> final_legit_on_time (fst (imported_shipment_reg S P cg)) \<and>
   0 \<le> final_counterfeit_on_time (fst (imported_shipment_reg S P cg)) \<and>
   0 \<le> final_missing (fst (imported_shipment_reg S P cg))"
  by (cases cg)
     (auto simp: imported_shipment_reg_def Let_def bump_def
           split: prod.splits dest!: stops_loop_reg_missing)

lemma local_shipment_reg_nonneg:
  "0 \<le> final_legit_on_time (fst cg) \<and> 0 \<le> final_counterfeit_on_time (fst cg)
     \<and> 0 \<le> final_missing (fst cg) \<Longrightarrow>
   0 \<le> final_legit_on_time (fst (local_shipment_reg S P cg)) \<and>
   0 \<le> final_counterfeit_on_time (fst (local_shipment_reg S P cg)) \<and>
   0 \<le> final_missing (fst (local_shipment_reg S P cg))"
  by (cases cg)
     (auto simp: local_shipment_reg_def Let_def bump_def
           split: prod.splits dest!: stops_loop_reg_missing)

lemma imported_reg_loop_statuses:
  "final_legit_on_time (fst ((imported_shipment_reg S P ^^ n) cg))
     + final_counterfeit_on_time (fst ((imported_shipment_reg S P ^^ n) cg))
     + final_missing (fst ((imported_shipment_reg S P ^^ n) cg))
   = final_legit_on_time (fst cg) + final_counterfeit_on_time (fst cg) + final_missing (fst cg)
     + int n"
  by (induction n) (simp_all add: imported_shipment_reg_statuses)

lemma local_reg_loop_statuses:
  "final_legit_on_time (fst ((local_shipment_reg S P ^^ n) cg))
     + final_counterfeit_on_time (fst ((local_shipment_reg S P ^^ n) cg))
     + final_missing (fst ((local_shipment_reg S P ^^ n) cg))
   = final_legit_on_time (fst cg) + final_counterfeit_on_time (fst cg) + final_missing (fst cg)
     + int n"
  by (induction n) (simp_all add: local_shipment_reg_statuses)

lemma imported_reg_loop_nonneg:
  "0 \<le> final_legit_on_time (fst cg) \<and> 0 \<le> final_counterfeit_on_time (fst cg)
     \<and> 0 \<le> final_missing (fst cg) \<Longrightarrow>
   0 \<le> final_legit_on_time (fst ((imported_shipment_reg S P ^^ n) cg)) \<and>
   0 \<le> final_counterfeit_on_time (fst ((imported_shipment_reg S P ^^ n) cg)) \<and>
   0 \<le> final_missing (fst ((imported_shipment_reg S P ^^ n) cg))"
proof (induction n)
  case 0
  then show ?case by simp
next
  case (Suc n)
  from imported_shipment_reg_nonneg [OF Suc.IH [OF Suc.prems]] show ?case by simp
qed

lemma local_reg_loop_nonneg:
  "0 \<le> final_legit_on_time (fst cg) \<and> 0 \<le> final_counterfeit_on_time (fst cg)
     \<and> 0 \<le> final_missing (fst cg) \<Longrightarrow>
   0 \<le> final_legit_on_time (fst ((local_shipment_reg S P ^^ n) cg)) \<and>
   0 \<le> final_counterfeit_on_time (fst ((local_shipment_reg S P ^^ n) cg)) \<and>
   0 \<le> final_missing (fst ((local_shipment_reg S P ^^ n) cg))"
proof (induction n)
  case 0
  then show ?case by simp
next
  case (Suc n)
  from local_shipment_reg_nonneg [OF Suc.IH [OF Suc.prems]] show ?case by simp
qed

lemma imported_reg_statuses:
  "0 \<le> N \<Longrightarrow>
   res_final_legit_on_time (fst (fst (simulate_imported_drugs_reg S N g)))
     + res_final_counterfeit_on_time (fst (fst (simulate_imported_drugs_reg S N g)))
     + res_final_missing (fst (fst (simulate_imported_drugs_reg S N g))) = N"
  by (simp add: simulate_imported_drugs_reg_def compile_results_reg_def split_beta Let_def
                reg_counters0_def imported_reg_loop_statuses)

lemma local_reg_statuses:
  "0 \<le> N \<Longrightarrow>
   res_final_legit_on_time (fst (fst (simulate_local_drugs_reg S N g)))
     + res_final_counterfeit_on_time (fst (fst (simulate_local_drugs_reg S N g)))
     + res_final_missing (fst (fst (simulate_local_drugs_reg S N g))) = N"
  by (simp add: simulate_local_drugs_reg_def compile_results_reg_def split_beta Let_def
                reg_counters0_def local_reg_loop_statuses)

lemma imported_reg_nonneg:
  "0 \<le> res_final_legit_on_time (fst (fst (simulate_imported_drugs_reg S N g))) \<and>
   0 \<le> res_final_counterfeit_on_time (fst (fst (simulate_imported_drugs_reg S N g))) \<and>
   0 \<le> res_final_missing (fst (fst (simulate_imported_drugs_reg S N g)))"
  using imported_reg_loop_nonneg [where cg = "(reg_counters0, snd (draw_imported_probs S g))"
           and S = S and P = "fst (draw_imported_probs S g)" and n = "nat N"]
  by (simp add: simulate_imported_drugs_reg_def compile_results_reg_def split_beta Let_def
                reg_counters0_def)

lemma local_reg_nonneg:
  "0 \<le> res_final_legit_on_time (fst (fst (simulate_local_drugs_reg S N g))) \<and>
   0 \<le> res_final_counterfeit_on_time (fst (fst (simulate_local_drugs_reg S N g))) \<and>
   0 \<le> res_final_missing (fst (fst (simulate_local_drugs_reg S N g)))"
  using local_reg_loop_nonneg [where cg = "(reg_counters0, snd (draw_local_probs S g))"
           and S = S and P = "fst (draw_local_probs S g)" and n = "nat N"]
  by (simp add: simulate_local_drugs_reg_def compile_results_reg_def split_beta Let_def
                reg_counters0_def)

lemma imported_reg_missing_le:
  "0 \<le> N \<Longrightarrow> res_final_missing (fst (fst (simulate_imported_drugs_reg S N g))) \<le> N"
  using imported_reg_statuses [of N S g] imported_reg_nonneg [of S N g] by linarith

lemma local_reg_missing_le:
  "0 \<le> N \<Longrightarrow> res_final_missing (fst (fst (simulate_local_drugs_reg S N g))) \<le> N"
  using local_reg_statuses [of N S g] local_reg_nonneg [of S N g] by linarith

text \<open>
  C2.  In the regression script every shipment ends in exactly one of the counters
  \<open>final_legit_on_time\<close>, \<open>final_counterfeit_on_time\<close> and \<open>final_missing\<close>: for a run over
  \<open>N \<ge> 0\<close> shipments, on the imported and on the local path, the three returned counters
  add up to \<open>N\<close>.
\<close>

theorem terminal_statuses_partition:
  assumes "0 \<le> N"
  shows "(res_final_legit_on_time (fst (fst (simulate_imported_drugs_reg S N g)))
            + res_final_counterfeit_on_time (fst (fst (simulate_imported_drugs_reg S N g)))
            + res_final_missing (fst (fst (simulate_imported_drugs_reg S N g))) = N)
       \<and> (res_final_legit_on_time (fst (fst (simulate_local_drugs_reg S N g)))
            + res_final_counterfeit_on_time (fst (fst (simulate_local_drugs_reg S N g)))
            + res_final_missing (fst (fst (simulate_local_drugs_reg S N g))) = N)"
  using assms imported_reg_statuses [of N S g] local_reg_statuses [of N S g] by simp

theorem terminal_statuses_partition_witness:
  "(0::int) \<le> 3
   \<and> res_final_legit_on_time (fst (fst (simulate_imported_drugs_reg scripted 3 [0.15, 0.5])))
       + res_final_counterfeit_on_time (fst (fst (simulate_imported_drugs_reg scripted 3 [0.15, 0.5])))
       + res_final_missing (fst (fst (simulate_imported_drugs_reg scripted 3 [0.15, 0.5]))) = 3
   \<and> res_final_legit_on_time (fst (fst (simulate_local_drugs_reg scripted 3 [0.15, 0.5])))
       + res_final_counterfeit_on_time (fst (fst (simulate_local_drugs_reg scripted 3 [0.15, 0.5])))
       + res_final_missing (fst (fst (simulate_local_drugs_reg scripted 3 [0.15, 0.5]))) = 3"
proof -
  have h: "(0::int) \<le> 3" by simp
  show ?thesis using terminal_statuses_partition [OF h, of scripted "[0.15, 0.5]"] by simp
qed

text \<open>
  C7.  The number of stops of a shipment is a Poisson draw with parameter 3 on the imported
  path and 1 on the local path, raised to 1 when the draw is 0: it is never less than 1.
\<close>

theorem num_stops_at_least_one:
  "fst (imported_num_stops S g) = max 1 (fst (rand_poisson S 3 g))
   \<and> fst (local_num_stops S g) = max 1 (fst (rand_poisson S 1 g))
   \<and> 1 \<le> fst (imported_num_stops S g)
   \<and> 1 \<le> fst (local_num_stops S g)"
  by (simp add: imported_num_stops_def local_num_stops_def draw_num_stops_def split_beta)

lemma main_loop_reg_rows:
  assumes N: "1 \<le> N"
    and I: "\<forall>r \<in> set imported_data. 0 \<le> missing_frac r \<and> missing_frac r \<le> 1"
    and L: "\<forall>r \<in> set local_data. 0 \<le> missing_frac r \<and> missing_frac r \<le> 1"
  shows "\<exists>imported_df local_df g'.
           main_loop_reg S N k imported_data local_data g = Inr ((imported_df, local_df), g')
           \<and> length imported_df = length imported_data + k
           \<and> length local_df = length local_data + k
           \<and> (\<forall>r \<in> set imported_df. 0 \<le> missing_frac r \<and> missing_frac r \<le> 1)
           \<and> (\<forall>r \<in> set local_df. 0 \<le> missing_frac r \<and> missing_frac r \<le> 1)"
  using I L
proof (induction k arbitrary: imported_data local_data g)
  case 0
  then show ?case by simp
next
  case (Suc k)
  obtain ri PI g1 where r1: "simulate_imported_drugs_reg S N g = ((ri, PI), g1)"
    by (metis surj_pair)
  obtain rl PL g2 where r2: "simulate_local_drugs_reg S N g1 = ((rl, PL), g2)"
    by (metis surj_pair)
  have N0: "0 \<le> N" "N \<noteq> 0" "0 < real_of_int N" using N by simp_all
  have mi: "0 \<le> res_final_missing ri" "res_final_missing ri \<le> N"
    using imported_reg_nonneg [of S N g] imported_reg_missing_le [OF N0(1), of S g] r1 by simp_all
  have ml: "0 \<le> res_final_missing rl" "res_final_missing rl \<le> N"
    using local_reg_nonneg [of S N g1] local_reg_missing_le [OF N0(1), of S g1] r2 by simp_all
  let ?I = "imported_data @ [\<lparr>probabilities = PI, avg_transit_time = res_avg_transit_time ri,
                missing_frac = real_of_int (res_final_missing ri) / real_of_int N\<rparr>]"
  let ?L = "local_data @ [\<lparr>probabilities = PL, avg_transit_time = res_avg_transit_time rl,
                missing_frac = real_of_int (res_final_missing rl) / real_of_int N\<rparr>]"
  have step: "main_loop_reg S N (Suc k) imported_data local_data g = main_loop_reg S N k ?I ?L g2"
    using N0(2) by (simp add: r1 r2 py_truediv_def bind_err_def)
  have I': "\<forall>r \<in> set ?I. 0 \<le> missing_frac r \<and> missing_frac r \<le> 1"
    using Suc.prems(1) mi N0(3) by (auto simp: divide_le_eq)
  have L': "\<forall>r \<in> set ?L. 0 \<le> missing_frac r \<and> missing_frac r \<le> 1"
    using Suc.prems(2) ml N0(3) by (auto simp: divide_le_eq)
  from Suc.IH [OF I' L', of g2] show ?case
    unfolding step by simp
qed

text \<open>
  C6.  In the regression script with \<open>N \<ge> 1\<close>, \<open>final_missing\<close> lies between \<open>0\<close> and \<open>N\<close>
  for both paths, \<^verbatim>\<open>main_simulation\<close> returns its two tables with one row per run, and the
  \<open>missing_frac\<close> of every row of both tables lies in \<open>[0, 1]\<close>.
\<close>

theorem missing_frac_in_unit_interval:
  assumes "1 \<le> N"
  shows "0 \<le> res_final_missing (fst (fst (simulate_imported_drugs_reg S N g)))
       \<and> res_final_missing (fst (fst (simulate_imported_drugs_reg S N g))) \<le> N
       \<and> 0 \<le> res_final_missing (fst (fst (simulate_local_drugs_reg S N g)))
       \<and> res_final_missing (fst (fst (simulate_local_drugs_reg S N g))) \<le> N
       \<and> (\<exists>imported_df local_df g'.
            main_simulation_reg S num_sims N g = Inr ((imported_df, local_df), g')
            \<and> length imported_df = nat num_sims
            \<and> length local_df = nat num_sims
            \<and> (\<forall>r \<in> set imported_df. 0 \<le> missing_frac r \<and> missing_frac r \<le> 1)
            \<and> (\<forall>r \<in> set local_df. 0 \<le> missing_frac r \<and> missing_frac r \<le> 1))"
proof -
  have N0: "0 \<le> N" using assms by simp
  have rows: "\<exists>imported_df local_df g'.
            main_simulation_reg S num_sims N g = Inr ((imported_df, local_df), g')
            \<and> length imported_df = nat num_sims
            \<and> length local_df = nat num_sims
            \<and> (\<forall>r \<in> set imported_df. 0 \<le> missing_frac r \<and> missing_frac r \<le> 1)
            \<and> (\<forall>r \<in> set local_df. 0 \<le> missing_frac r \<and> missing_frac r \<le> 1)"
    using main_loop_reg_rows [OF assms, of "[]" "[]" S "nat num_sims" g]
    by (simp add: main_simulation_reg_def)
  show ?thesis
    using imported_reg_nonneg [of S N g] imported_reg_missing_le [OF N0, of S g]
      local_reg_nonneg [of S N g] local_reg_missing_le [OF N0, of S g] rows
    by blast
qed

theorem missing_frac_in_unit_interval_witness:
  "(1::int) \<le> 2
   \<and> (0 \<le> res_final_missing (fst (fst (simulate_imported_drugs_reg scripted 2 [0.15, 0.5])))
       \<and> res_final_missing (fst (fst (simulate_imported_drugs_reg scripted 2 [0.15, 0.5]))) \<le> 2
       \<and> 0 \<le> res_final_missing (fst (fst (simulate_local_drugs_reg scripted 2 [0.15, 0.5])))
       \<and> res_final_missing (fst (fst (simulate_local_drugs_reg scripted 2 [0.15, 0.5]))) \<le> 2
       \<and> (\<exists>imported_df local_df g'.
            main_simulation_reg scripted 3 2 [0.15, 0.5] = Inr ((imported_df, local_df), g')
            \<and> length imported_df = nat 3
            \<and> length local_df = nat 3
            \<and> (\<forall>r \<in> set imported_df. 0 \<le> missing_frac r \<and> missing_frac r \<le> 1)
            \<and> (\<forall>r \<in> set local_df. 0 \<le> missing_frac r \<and> missing_frac r \<le> 1)))"
proof -
  have h: "(1::int) \<le> 2" by simp
  show ?thesis
    using h missing_frac_in_unit_interval [OF h, of scripted "[0.15, 0.5]" 3] by (rule conjI)
qed

section \<open>The loop bodies against the journey\<close>

lemma journey_stops_stops_loop:
  "journey_stops S p n t g =
     (if fst (snd (stops_loop S p n t g)) then None else Some (fst (stops_loop S p n t g)),
      snd (snd (stops_loop S p n t g)))"
  by (induction n arbitrary: t g) (simp_all add: split_beta Let_def)

lemma stops_loop_reg_stops_loop:
  "stops_loop_reg S p n t m g =
     (fst (stops_loop S p n t g), fst (snd (stops_loop S p n t g)),
      m + bump (fst (snd (stops_loop S p n t g))), snd (snd (stops_loop S p n t g)))"
  by (induction n arbitrary: t g) (simp_all add: split_beta Let_def bump_def)

lemma imported_shipment_journey:
  "imported_shipment S P (c, g) =
     (case journey_imported S P g of ((cf, e), g') \<Rightarrow>
        ((if cf then c\<lparr>counterfeit_total := counterfeit_total c + 1,
                        final_counterfeit_on_time :=
                          final_counterfeit_on_time c + bump (on_time_arrival e)\<rparr>
          else c\<lparr>legit_total := legit_total c + 1,
                  final_legit_on_time := final_legit_on_time c + bump (on_time_arrival e)\<rparr>), g'))"
  by (simp add: imported_shipment_def journey_imported_def journey_stops_stops_loop
        imported_num_stops_def draw_num_stops_def on_time_arrival_def bump_def
        split_beta Let_def)

lemma local_shipment_journey:
  "local_shipment S P (c, g) =
     (case journey_local S P g of ((cf, e), g') \<Rightarrow>
        ((if cf then c\<lparr>counterfeit_total := counterfeit_total c + 1,
                        final_counterfeit_on_time :=
                          final_counterfeit_on_time c + bump (on_time_arrival e)\<rparr>
          else c\<lparr>legit_total := legit_total c + 1,
                  final_legit_on_time := final_legit_on_time c + bump (on_time_arrival e)\<rparr>), g'))"
  by (simp add: local_shipment_def journey_local_def journey_stops_stops_loop
        local_num_stops_def draw_num_stops_def on_time_arrival_def bump_def
        split_beta Let_def)

lemma imported_shipment_reg_journey:
  "imported_shipment_reg S P (c, g) =
     (case journey_imported S P g of ((cf, e), g') \<Rightarrow>
        ((if cf then c\<lparr>counterfeit_total := counterfeit_total c + 1,
                        final_counterfeit_on_time :=
                          final_counterfeit_on_time c + bump (on_time_arrival e),
                        total_transit_time := total_transit_time c + arrival_time e,
                        arrived_shipments := arrived_shipments c + arrivals e,
                        final_missing := final_missing c + bump (\<not> on_time_arrival e)\<rparr>
          else c\<lparr>legit_total := legit_total c + 1,
                  final_legit_on_time := final_legit_on_time c + bump (on_time_arrival e),
                  total_transit_time := total_transit_time c + arrival_time e,
                  arrived_shipments := arrived_shipments c + arrivals e,
                  final_missing := final_missing c + bump (\<not> on_time_arrival e)\<rparr>), g'))"
  by (simp add: imported_shipment_reg_def journey_imported_def journey_stops_stops_loop
        stops_loop_reg_stops_loop
        imported_num_stops_def draw_num_stops_def on_time_arrival_def arrival_time_def
        arrivals_def bump_def split_beta Let_def)

lemma local_shipment_reg_journey:
  "local_shipment_reg S P (c, g) =
     (case journey_local S P g of ((cf, e), g') \<Rightarrow>
        ((if cf then c\<lparr>counterfeit_total := counterfeit_total c + 1,
                        final_counterfeit_on_time :=
                          final_counterfeit_on_time c + bump (on_time_arrival e),
                        total_transit_time := total_transit_time c + arrival_time e,
                        arrived_shipments := arrived_shipments c + arrivals e,
                        final_missing := final_missing c + bump (\<not> on_time_arrival e)\<rparr>
          else c\<lparr>legit_total := legit_total c + 1,
                  final_legit_on_time := final_legit_on_time c + bump (on_time_arrival e),
                  total_transit_time := total_transit_time c + arrival_time e,
                  arrived_shipments := arrived_shipments c + arrivals e,
                  final_missing := final_missing c + bump (\<not> on_time_arrival e)\<rparr>), g'))"
  by (simp add: local_shipment_reg_def journey_local_def journey_stops_stops_loop
        stops_loop_reg_stops_loop
        local_num_stops_def draw_num_stops_def on_time_arrival_def arrival_time_def
        arrivals_def bump_def split_beta Let_def)


text \<open>
  C3.  One iteration of each of the four per-shipment loops does to the counters exactly
  what the journey says: the class total of the shipment's class goes up by one, and the
  on-time counter of that class goes up by one exactly when the journey reached the arrival
  check with a cumulative transit time strictly below 7.  In the regression script
  \<open>arrived_shipments\<close> and \<open>total_transit_time\<close> change only for a shipment that reached the
  arrival check (by one and by its transit time), and \<open>final_missing\<close> goes up by one exactly
  when the shipment is not on time.  The generator is left in the state the journey leaves
  it in.  A shipment that a seizure or a theft terminated leaves no trace of the transit
  time it had accumulated up to that stage.
\<close>

theorem on_time_iff_arrival_before_seven:
  "imported_shipment S P (c, g) =
     (case journey_imported S P g of ((cf, e), g') \<Rightarrow>
        ((if cf then c\<lparr>counterfeit_total := counterfeit_total c + 1,
                        final_counterfeit_on_time :=
                          final_counterfeit_on_time c + bump (on_time_arrival e)\<rparr>
          else c\<lparr>legit_total := legit_total c + 1,
                  final_legit_on_time := final_legit_on_time c + bump (on_time_arrival e)\<rparr>), g'))
   \<and> local_shipment S PL (c, g) =
     (case journey_local S PL g of ((cf, e), g') \<Rightarrow>
        ((if cf then c\<lparr>counterfeit_total := counterfeit_total c + 1,
                        final_counterfeit_on_time :=
                          final_counterfeit_on_time c + bump (on_time_arrival e)\<rparr>
          else c\<lparr>legit_total := legit_total c + 1,
                  final_legit_on_time := final_legit_on_time c + bump (on_time_arrival e)\<rparr>), g'))
   \<and> imported_shipment_reg S P (r, g) =
     (case journey_imported S P g of ((cf, e), g') \<Rightarrow>
        ((if cf then r\<lparr>counterfeit_total := counterfeit_total r + 1,
                        final_counterfeit_on_time :=
                          final_counterfeit_on_time r + bump (on_time_arrival e),
                        total_transit_time := total_transit_time r + arrival_time e,
                        arrived_shipments := arrived_shipments r + arrivals e,
                        final_missing := final_missing r + bump (\<not> on_time_arrival e)\<rparr>
          else r\<lparr>legit_total := legit_total r + 1,
                  final_legit_on_time := final_legit_on_time r + bump (on_time_arrival e),
                  total_transit_time := total_transit_time r + arrival_time e,
                  arrived_shipments := arrived_shipments r + arrivals e,
                  final_missing := final_missing r + bump (\<not> on_time_arrival e)\<rparr>), g'))
   \<and> local_shipment_reg S PL (r, g) =
     (case journey_local S PL g of ((cf, e), g') \<Rightarrow>
        ((if cf then r\<lparr>counterfeit_total := counterfeit_total r + 1,
                        final_counterfeit_on_time :=
                          final_counterfeit_on_time r + bump (on_time_arrival e),
                        total_transit_time := total_transit_time r + arrival_time e,
                        arrived_shipments := arrived_shipments r + arrivals e,
                        final_missing := final_missing r + bump (\<not> on_time_arrival e)\<rparr>
          else r\<lparr>legit_total := legit_total r + 1,
                  final_legit_on_time := final_legit_on_time r + bump (on_time_arrival e),
                  total_transit_time := total_transit_time r + arrival_time e,
                  arrived_shipments := arrived_shipments r + arrivals e,
                  final_missing := final_missing r + bump (\<not> on_time_arrival e)\<rparr>), g'))"
  by (intro conjI imported_shipment_journey local_shipment_journey
        imported_shipment_reg_journey local_shipment_reg_journey)

section \<open>The guard on an empty class\<close>

lemma append_fractions_returns:
  "N \<noteq> 0 \<Longrightarrow> \<exists>L'. append_fractions N imported_res local_res L = Inr L'"
  by (simp add: append_fractions_def py_truediv_def bind_err_def Let_def)

lemma append_fractions_last:
  assumes "append_fractions N imported_res local_res L = Inr L'"
  shows "last (imported_legit_arrivals L')
           = guarded_fraction (res_final_legit_on_time imported_res) (res_final_legit_total imported_res)"
    and "last (imported_counterfeit_arrivals L')
           = guarded_fraction (res_final_counterfeit_on_time imported_res)
               (res_final_counterfeit_total imported_res)"
    and "last (local_legit_arrivals L')
           = guarded_fraction (res_final_legit_on_time local_res) (res_final_legit_total local_res)"
    and "last (local_counterfeit_arrivals L')
           = guarded_fraction (res_final_counterfeit_on_time local_res)
               (res_final_counterfeit_total local_res)"
  using assms
  by (auto simp: append_fractions_def py_truediv_def bind_err_def Let_def split: if_splits)

text \<open>
  C5.  When a run has no shipment of a class, the on-time fraction the aggregator appends
  for that class is \<open>0\<close>, and computing it raises nothing: in \<^verbatim>\<open>main_simulation\<close> (imported
  and local, legit and counterfeit) and in \<^verbatim>\<open>batch_simulation\<close>.  The hypothesis \<open>N \<noteq> 0\<close>
  is needed only for the unguarded divisions by \<open>N\<close> that \<^verbatim>\<open>main_simulation\<close> performs in the
  same iteration.
\<close>

theorem zero_class_total_fraction_is_zero:
  assumes "N \<noteq> 0"
  shows "(\<exists>L'. append_fractions N imported_res local_res L = Inr L'
            \<and> (res_final_legit_total imported_res = 0 \<longrightarrow> last (imported_legit_arrivals L') = 0)
            \<and> (res_final_counterfeit_total imported_res = 0
                 \<longrightarrow> last (imported_counterfeit_arrivals L') = 0)
            \<and> (res_final_legit_total local_res = 0 \<longrightarrow> last (local_legit_arrivals L') = 0)
            \<and> (res_final_counterfeit_total local_res = 0
                 \<longrightarrow> last (local_counterfeit_arrivals L') = 0))
       \<and> (imp_legit_tot = 0 \<longrightarrow>
            last (batch_legit_arrivals
                   (append_batch (imp_legit, imp_counter, imp_legit_tot, imp_counter_tot) B)) = 0)
       \<and> (imp_counter_tot = 0 \<longrightarrow>
            last (batch_counterfeit_arrivals
                   (append_batch (imp_legit, imp_counter, imp_legit_tot, imp_counter_tot) B)) = 0)"
proof -
  obtain L' where L': "append_fractions N imported_res local_res L = Inr L'"
    using append_fractions_returns [OF assms] by blast
  have "(res_final_legit_total imported_res = 0 \<longrightarrow> last (imported_legit_arrivals L') = 0)
      \<and> (res_final_counterfeit_total imported_res = 0
           \<longrightarrow> last (imported_counterfeit_arrivals L') = 0)
      \<and> (res_final_legit_total local_res = 0 \<longrightarrow> last (local_legit_arrivals L') = 0)
      \<and> (res_final_counterfeit_total local_res = 0
           \<longrightarrow> last (local_counterfeit_arrivals L') = 0)"
    by (simp add: append_fractions_last [OF L'] guarded_fraction_def)
  with L' have mc: "\<exists>L'. append_fractions N imported_res local_res L = Inr L'
            \<and> (res_final_legit_total imported_res = 0 \<longrightarrow> last (imported_legit_arrivals L') = 0)
            \<and> (res_final_counterfeit_total imported_res = 0
                 \<longrightarrow> last (imported_counterfeit_arrivals L') = 0)
            \<and> (res_final_legit_total local_res = 0 \<longrightarrow> last (local_legit_arrivals L') = 0)
            \<and> (res_final_counterfeit_total local_res = 0
                 \<longrightarrow> last (local_counterfeit_arrivals L') = 0)"
    by blast
  show ?thesis
    by (intro conjI mc) (simp_all add: append_batch_def guarded_fraction_def)
qed

theorem zero_class_total_fraction_is_zero_witness:
  "(2::int) \<noteq> 0
   \<and> res_final_counterfeit_total (fst (simulate_imported_drugs scripted 2 all_legit_script)) = 0
   \<and> (\<exists>L'. append_fractions 2 (fst (simulate_imported_drugs scripted 2 all_legit_script))
               (fst (fst (simulate_local_drugs scripted 2
                            (snd (simulate_imported_drugs scripted 2 all_legit_script)))))
               mc_lists0 = Inr L'
            \<and> last (imported_counterfeit_arrivals L') = 0)
   \<and> last (batch_counterfeit_arrivals (append_batch (3, 0, 4, 0) batch_lists0)) = 0
   \<and> main_simulation scripted 1 2 all_legit_script
       = Inr (\<lparr>imported_mean_legit_fraction = Some 1,
                imported_mean_counterfeit_fraction = Some 0,
                local_mean_legit_fraction = Some 1,
                local_mean_counterfeit_fraction = Some 0,
                imported_legit_on_time = Some 1,
                imported_counterfeit_on_time = Some 0,
                local_legit_on_time = Some 1,
                local_counterfeit_on_time = Some 0\<rparr>, [])"
proof -
  have h: "(2::int) \<noteq> 0" by simp
  have z: "res_final_counterfeit_total (fst (simulate_imported_drugs scripted 2 all_legit_script)) = 0"
    by code_simp
  have m: "main_simulation scripted 1 2 all_legit_script
       = Inr (\<lparr>imported_mean_legit_fraction = Some 1,
                imported_mean_counterfeit_fraction = Some 0,
                local_mean_legit_fraction = Some 1,
                local_mean_counterfeit_fraction = Some 0,
                imported_legit_on_time = Some 1,
                imported_counterfeit_on_time = Some 0,
                local_legit_on_time = Some 1,
                local_counterfeit_on_time = Some 0\<rparr>, [])"
    by code_simp
  show ?thesis
    using h z m
      zero_class_total_fraction_is_zero [OF h,
        where imported_res = "fst (simulate_imported_drugs scripted 2 all_legit_script)"
          and local_res = "fst (fst (simulate_local_drugs scripted 2
                            (snd (simulate_imported_drugs scripted 2 all_legit_script))))"
          and L = mc_lists0 and imp_legit = 3 and imp_counter = 0 and imp_legit_tot = 4
          and imp_counter_tot = 0 and B = batch_lists0]
    by auto
qed

section \<open>Bounds on the counts of the batch script\<close>

lemma uniform_bounds:
  "numpy_contract S \<Longrightarrow> a \<le> b \<Longrightarrow>
   a \<le> fst (rand_uniform S a b g) \<and> fst (rand_uniform S a b g) \<le> b"
  by (simp add: numpy_contract_def)

lemma beta_bounds:
  "numpy_contract S \<Longrightarrow> 0 \<le> fst (rand_beta S a b g) \<and> fst (rand_beta S a b g) \<le> 1"
  by (simp add: numpy_contract_def)

lemma binomial_bounds:
  "numpy_contract S \<Longrightarrow> 0 \<le> n \<Longrightarrow>
   0 \<le> fst (rand_binomial S n p g) \<and> fst (rand_binomial S n p g) \<le> n"
  by (simp add: numpy_contract_def)

lemma length_normal_draws: "length (fst (normal_draws S m sd n g)) = n"
  by (induction n arbitrary: g) (simp_all add: split_beta)

lemma py_int_fraction:
  assumes "py_int (map_option (\<lambda>f. real_of_int r * f) (np_count_div k N)) = Inr v"
    and "0 \<le> r" and "int k \<le> N"
  shows "0 \<le> v \<and> v \<le> r \<and> 0 < N"
proof -
  from assms(1) have N: "N \<noteq> 0" by (auto simp: py_int_def np_count_div_def split: if_splits)
  with assms(3) have N0: "0 < N" by linarith
  let ?f = "real k / real_of_int N"
  have f: "0 \<le> ?f" "?f \<le> 1" using N0 assms(3) by (simp_all add: divide_le_eq)
  have p: "0 \<le> real_of_int r * ?f"
    by (rule mult_nonneg_nonneg) (use assms(2) f in simp_all)
  have q: "real_of_int r * ?f \<le> real_of_int r"
    by (rule mult_left_le) (use assms(2) f in simp_all)
  from assms(1) N p have v: "v = \<lfloor>real_of_int r * ?f\<rfloor>"
    by (simp add: py_int_def np_count_div_def)
  have "0 \<le> v" using p v by simp
  moreover have "v \<le> r" using q v by (simp add: floor_le_iff)
  ultimately show ?thesis using N0 by simp
qed

lemma bind_errE:
  assumes "bind_err m f = Inr y"
  obtains x where "m = Inr x" and "f x = Inr y"
  using assms by (cases m) (simp_all add: bind_err_def)

lemma bind_err_pairE:
  assumes "bind_err m (\<lambda>(a, b). f a b) = Inr y"
  obtains a b where "m = Inr (a, b)" and "f a b = Inr y"
  using assms by (cases m) (auto simp: bind_err_def)

lemma np_binomial_range:
  "numpy_contract S \<Longrightarrow> np_binomial S n p g = Inr (k, g') \<Longrightarrow> 0 \<le> k \<and> k \<le> n"
  using binomial_bounds [of S n p g]
  by (auto simp: np_binomial_def split: if_splits)

lemma np_normal_array_length:
  "np_normal_array S m sd n g = Inr (xs, g') \<Longrightarrow> int (length xs) = n"
  using length_normal_draws [of S m sd "nat n" g]
  by (auto simp: np_normal_array_def split: if_splits)

lemma py_int_count:
  assumes "py_int (map_option (\<lambda>f. real_of_int (max 0 r) * f)
                     (np_count_div (length (filter P xs)) N)) = Inr v"
    and "int (length xs) = N"
  shows "0 \<le> v \<and> v \<le> max 0 r \<and> 0 < N"
proof (rule py_int_fraction [OF assms(1)])
  show "0 \<le> max 0 r" by simp
  have "length (filter P xs) \<le> length xs" by simp
  then show "int (length (filter P xs)) \<le> N" using assms(2) by linarith
qed

lemma survivors_le:
  fixes x T :: int and a b c d :: nat
  assumes "x \<le> max 0 (max 0 (T - int a) - int b)" and "0 \<le> T"
  shows "max 0 (max 0 (x - int c) - int d) \<le> T"
  using assms by (simp add: max_def split: if_splits)

lemma batch_bounds:
  assumes c: "numpy_contract S"
    and r: "simulate_imported_batch S N g = Inr ((fl, fc, lt, ct), g')"
  shows "1 \<le> N \<and> 0 \<le> fl \<and> fl \<le> lt \<and> 0 \<le> fc \<and> fc \<le> ct"
  using r unfolding simulate_imported_batch_def
  apply (simp only: Let_def split_beta)
  apply (erule bind_err_pairE bind_errE)+
  apply (frule np_binomial_range [OF c])
  apply (frule np_normal_array_length)
  apply (drule (1) py_int_count)+
  apply (elim conjE)
  apply (simp only: sum.inject prod.inject)
  apply (elim conjE)
  apply hypsubst
  apply (intro conjI)
      apply linarith
     apply (rule max.cobounded1)
    apply (erule survivors_le, linarith)
   apply (rule max.cobounded1)
  apply (erule survivors_le, linarith)
  done


lemma bind_err_InlE:
  assumes "bind_err m f = Inl e"
  obtains (later) x where "m = Inr x" and "f x = Inl e" | (now) "m = Inl e"
  using assms by (cases m) (simp_all add: bind_err_def)

lemma bind_err_pair_InlE:
  assumes "bind_err m (\<lambda>(a, b). f a b) = Inl e"
  obtains (later) a b where "m = Inr (a, b)" and "f a b = Inl e" | (now) "m = Inl e"
  using assms by (cases m) (auto simp: bind_err_def)

lemma poisson_rate_uniform:
  "numpy_contract S \<Longrightarrow> 0 \<le> v \<Longrightarrow> 0 \<le> a \<Longrightarrow> a \<le> b \<Longrightarrow>
   \<not> real_of_int v * fst (rand_uniform S a b g) < 0"
  using uniform_bounds [of S a b g] by (simp add: not_less)

lemma poisson_rate_beta:
  "numpy_contract S \<Longrightarrow> 0 \<le> v \<Longrightarrow> \<not> real_of_int v * fst (rand_beta S a b g) < 0"
  using beta_bounds [of S a b g] by (simp add: not_less)

lemma uniform_not_neg:
  "numpy_contract S \<Longrightarrow> 0 \<le> a \<Longrightarrow> a \<le> b \<Longrightarrow> \<not> fst (rand_uniform S a b g) < 0"
  using uniform_bounds [of S a b g] by simp

lemma uniform_not_above_one:
  "numpy_contract S \<Longrightarrow> a \<le> b \<Longrightarrow> b \<le> 1 \<Longrightarrow> \<not> 1 < fst (rand_uniform S a b g)"
  using uniform_bounds [of S a b g] by simp

lemma beta_not_neg: "numpy_contract S \<Longrightarrow> \<not> fst (rand_beta S a b g) < 0"
  using beta_bounds [of S a b g] by simp

lemma np_poisson_Inl: "np_poisson S lam g = Inl e \<Longrightarrow> lam < 0"
  by (simp add: np_poisson_def split: if_splits)

lemma np_binomial_Inl:
  "np_binomial S n p g = Inl e \<Longrightarrow> 2 ^ 63 \<le> n \<or> n < 0 \<or> p < 0 \<or> 1 < p"
  by (auto simp: np_binomial_def split: if_splits)

lemma np_normal_array_Inl: "np_normal_array S m sd n g = Inl e \<Longrightarrow> n < 0"
  by (simp add: np_normal_array_def split: if_splits)

lemma py_int_Inl: "py_int (map_option f (np_count_div k N)) = Inl e \<Longrightarrow> N = 0"
  by (simp add: py_int_def np_count_div_def split: if_splits)

lemma batch_returns:
  assumes c: "numpy_contract S" and N: "1 \<le> N" and M: "N < 2 ^ 63"
  shows "\<exists>r. simulate_imported_batch S N g = Inr r"
proof (cases "simulate_imported_batch S N g")
  case (Inr r)
  then show ?thesis by blast
next
  case (Inl e)
  then have False
    using c N M unfolding simulate_imported_batch_def
    apply (simp only: Let_def split_beta)
    apply (erule bind_err_pair_InlE bind_err_InlE)+
    apply (auto dest!: np_poisson_Inl np_binomial_Inl np_normal_array_Inl py_int_Inl
             dest: np_binomial_range np_normal_array_length py_int_count
             simp: poisson_rate_uniform poisson_rate_beta)
       apply (frule (1) np_binomial_range, simp add: mult_less_0_iff beta_not_neg)
      apply (frule (1) np_binomial_range, simp add: mult_less_0_iff uniform_not_neg)
     apply (simp add: uniform_not_neg)
    apply (simp add: uniform_not_above_one)
    done
  then show ?thesis ..
qed

lemma scripted_contract: "numpy_contract scripted"
  by (auto simp: numpy_contract_def scripted_def next_draw_def split: list.splits)

lemma guarded_fraction_unit:
  "0 \<le> a \<Longrightarrow> a \<le> b \<Longrightarrow> 0 \<le> guarded_fraction a b \<and> guarded_fraction a b \<le> 1"
  by (simp add: guarded_fraction_def divide_le_eq)

lemma batch_loop_fractions:
  assumes c: "numpy_contract S"
  shows "batch_loop S N k L g = Inr (L', g') \<Longrightarrow>
         (\<forall>x \<in> set (batch_legit_arrivals L). 0 \<le> x \<and> x \<le> 1) \<Longrightarrow>
         (\<forall>x \<in> set (batch_counterfeit_arrivals L). 0 \<le> x \<and> x \<le> 1) \<Longrightarrow>
         (\<forall>x \<in> set (batch_legit_arrivals L'). 0 \<le> x \<and> x \<le> 1) \<and>
         (\<forall>x \<in> set (batch_counterfeit_arrivals L'). 0 \<le> x \<and> x \<le> 1)"
proof (induction k arbitrary: L g)
  case 0
  then show ?case by simp
next
  case (Suc k)
  from Suc.prems(1) obtain r g1 where
    r: "simulate_imported_batch S N g = Inr (r, g1)"
    and rest: "batch_loop S N k (append_batch r L) g1 = Inr (L', g')"
    by (auto elim: bind_err_pairE)
  obtain fl fc lt ct where t: "r = (fl, fc, lt, ct)" by (cases r) auto
  from batch_bounds [OF c r [unfolded t]]
  have b: "0 \<le> fl" "fl \<le> lt" "0 \<le> fc" "fc \<le> ct" by simp_all
  have 1: "\<forall>x \<in> set (batch_legit_arrivals (append_batch r L)). 0 \<le> x \<and> x \<le> 1"
    using Suc.prems(2) guarded_fraction_unit [OF b(1,2)] by (auto simp: t append_batch_def)
  have 2: "\<forall>x \<in> set (batch_counterfeit_arrivals (append_batch r L)). 0 \<le> x \<and> x \<le> 1"
    using Suc.prems(3) guarded_fraction_unit [OF b(3,4)] by (auto simp: t append_batch_def)
  from Suc.IH [OF rest 1 2] show ?case .
qed

text \<open>
  C10.  Given numpy's contract for its samplers, every call of \<^verbatim>\<open>simulate_imported_batch\<close>
  that returns gives counts with \<open>0 \<le> final_legit \<le> legit_import\<close> and
  \<open>0 \<le> final_counterfeit \<le> counterfeit_import\<close>; the on-time fractions that
  \<^verbatim>\<open>batch_simulation\<close> computes from them, and so every entry of its two lists of fractions,
  lie in \<open>[0, 1]\<close>; and for \<open>N \<ge> 1\<close> that fits a C long the call does return.
\<close>

theorem batch_counts_bounded:
  assumes "numpy_contract S"
  shows "(\<forall>final_legit final_counterfeit legit_import counterfeit_import g'.
            simulate_imported_batch S N g
              = Inr ((final_legit, final_counterfeit, legit_import, counterfeit_import), g')
            \<longrightarrow> 0 \<le> final_legit \<and> final_legit \<le> legit_import
              \<and> 0 \<le> final_counterfeit \<and> final_counterfeit \<le> counterfeit_import
              \<and> 0 \<le> guarded_fraction final_legit legit_import
              \<and> guarded_fraction final_legit legit_import \<le> 1
              \<and> 0 \<le> guarded_fraction final_counterfeit counterfeit_import
              \<and> guarded_fraction final_counterfeit counterfeit_import \<le> 1)
       \<and> (\<forall>L' g'. batch_loop S N k batch_lists0 g = Inr (L', g')
            \<longrightarrow> (\<forall>x \<in> set (batch_legit_arrivals L'). 0 \<le> x \<and> x \<le> 1)
              \<and> (\<forall>x \<in> set (batch_counterfeit_arrivals L'). 0 \<le> x \<and> x \<le> 1))
       \<and> (1 \<le> N \<and> N < 2 ^ 63 \<longrightarrow> (\<exists>r. simulate_imported_batch S N g = Inr r))"
proof (intro conjI allI impI)
  fix fl fc lt ct g'
  assume r: "simulate_imported_batch S N g = Inr ((fl, fc, lt, ct), g')"
  from batch_bounds [OF assms r]
  have b: "0 \<le> fl" "fl \<le> lt" "0 \<le> fc" "fc \<le> ct" by simp_all
  show "0 \<le> fl" "fl \<le> lt" "0 \<le> fc" "fc \<le> ct" by (rule b)+
  show "0 \<le> guarded_fraction fl lt" "guarded_fraction fl lt \<le> 1"
    using guarded_fraction_unit [OF b(1,2)] by simp_all
  show "0 \<le> guarded_fraction fc ct" "guarded_fraction fc ct \<le> 1"
    using guarded_fraction_unit [OF b(3,4)] by simp_all
next
  fix L' g'
  assume l: "batch_loop S N k batch_lists0 g = Inr (L', g')"
  have "(\<forall>x \<in> set (batch_legit_arrivals L'). 0 \<le> x \<and> x \<le> 1) \<and>
        (\<forall>x \<in> set (batch_counterfeit_arrivals L'). 0 \<le> x \<and> x \<le> 1)"
    by (rule batch_loop_fractions [OF assms l]) (simp_all add: batch_lists0_def)
  then show "\<forall>x \<in> set (batch_legit_arrivals L'). 0 \<le> x \<and> x \<le> 1"
    and "\<forall>x \<in> set (batch_counterfeit_arrivals L'). 0 \<le> x \<and> x \<le> 1" by simp_all
next
  assume "1 \<le> N \<and> N < 2 ^ 63"
  then show "\<exists>r. simulate_imported_batch S N g = Inr r"
    using batch_returns [OF assms, of N g] by blast
qed

theorem batch_counts_bounded_witness:
  "simulate_imported_batch scripted 4 batch_script = Inr ((2, 0, 3, 1), [])
   \<and> 0 \<le> guarded_fraction 2 3 \<and> guarded_fraction 2 3 \<le> 1
   \<and> 0 \<le> guarded_fraction 0 1 \<and> guarded_fraction 0 1 \<le> 1
   \<and> batch_loop scripted 4 (Suc 0) batch_lists0 batch_script
       = Inr (\<lparr>batch_legit_arrivals = [2 / 3], batch_counterfeit_arrivals = [0],
                batch_legit_total = [3], batch_counterfeit_total = [1]\<rparr>, [])
   \<and> (1::int) \<le> 4"
proof -
  have s: "simulate_imported_batch scripted 4 batch_script = Inr ((2, 0, 3, 1), [])"
    by code_simp
  have l: "batch_loop scripted 4 (Suc 0) batch_lists0 batch_script
       = Inr (\<lparr>batch_legit_arrivals = [2 / 3], batch_counterfeit_arrivals = [0],
                batch_legit_total = [3], batch_counterfeit_total = [1]\<rparr>, [])"
    by code_simp
  show ?thesis
    using s l
      batch_counts_bounded [OF scripted_contract, of 4 batch_script "Suc 0"]
    by simp
qed

section \<open>What the entry points do with an invalid configuration\<close>

lemma append_fractions_zero: "append_fractions 0 imported_res local_res L = Inl ZeroDivisionError"
  by (simp add: append_fractions_def py_truediv_def bind_err_def)

lemma main_loop_returns: "N \<noteq> 0 \<Longrightarrow> \<exists>r. main_loop S N k L g = Inr r"
proof (induction k arbitrary: L g)
  case 0
  then show ?case by simp
next
  case (Suc k)
  obtain ri g1 where 1: "simulate_imported_drugs S N g = (ri, g1)" by (metis surj_pair)
  obtain rl PL g2 where 2: "simulate_local_drugs S N g1 = ((rl, PL), g2)" by (metis surj_pair)
  from append_fractions_returns [OF Suc.prems, of ri rl L]
  obtain L' where 3: "append_fractions N ri rl L = Inr L'" by blast
  from Suc.IH [OF Suc.prems, of L' g2] show ?case
    by (simp add: 1 2 3 bind_err_def)
qed

lemma main_loop_zero: "main_loop S 0 (Suc k) L g = Inl ZeroDivisionError"
  by (simp add: split_beta append_fractions_zero bind_err_def)

lemma main_simulation_raises:
  "main_simulation S num_sims N g = Inl e \<longleftrightarrow> e = ZeroDivisionError \<and> N = 0 \<and> 1 \<le> num_sims"
proof (cases "N = 0")
  case False
  with main_loop_returns [of N S "nat num_sims" mc_lists0 g] show ?thesis
    by (auto simp: main_simulation_def bind_err_def)
next
  case True
  show ?thesis
  proof (cases "nat num_sims")
    case 0
    then show ?thesis by (auto simp: main_simulation_def bind_err_def)
  next
    case (Suc k)
    then have n: "1 \<le> num_sims" by linarith
    have "main_loop S N (nat num_sims) mc_lists0 g = Inl ZeroDivisionError"
      unfolding Suc True by (rule main_loop_zero)
    with n True show ?thesis
      by (auto simp: main_simulation_def bind_err_def)
  qed
qed

lemma main_loop_reg_returns: "N \<noteq> 0 \<Longrightarrow> \<exists>r. main_loop_reg S N k I L g = Inr r"
proof (induction k arbitrary: I L g)
  case 0
  then show ?case by simp
next
  case (Suc k)
  obtain ri PI g1 where 1: "simulate_imported_drugs_reg S N g = ((ri, PI), g1)"
    by (metis surj_pair)
  obtain rl PL g2 where 2: "simulate_local_drugs_reg S N g1 = ((rl, PL), g2)"
    by (metis surj_pair)
  from Suc.IH [OF Suc.prems] Suc.prems show ?case
    by (simp add: 1 2 bind_err_def py_truediv_def)
qed

lemma main_loop_reg_zero: "main_loop_reg S 0 (Suc k) I L g = Inl ZeroDivisionError"
  by (simp add: split_beta py_truediv_def bind_err_def)

lemma main_simulation_reg_raises:
  "main_simulation_reg S num_sims N g = Inl e
     \<longleftrightarrow> e = ZeroDivisionError \<and> N = 0 \<and> 1 \<le> num_sims"
proof (cases "N = 0")
  case False
  with main_loop_reg_returns [of N S "nat num_sims" "[]" "[]" g] show ?thesis
    by (auto simp: main_simulation_reg_def)
next
  case True
  show ?thesis
  proof (cases "nat num_sims")
    case 0
    then show ?thesis by (auto simp: main_simulation_reg_def)
  next
    case (Suc k)
    then have n: "1 \<le> num_sims" by linarith
    have "main_loop_reg S N (nat num_sims) [] [] g = Inl ZeroDivisionError"
      unfolding Suc True by (rule main_loop_reg_zero)
    with n True show ?thesis
      by (auto simp: main_simulation_reg_def)
  qed
qed

lemma batch_returns_positive:
  "simulate_imported_batch S N g = Inr r \<Longrightarrow> 1 \<le> N"
  unfolding simulate_imported_batch_def
  apply (simp only: Let_def split_beta)
  apply (erule bind_err_pairE bind_errE)+
  apply (auto simp: np_binomial_def py_int_def np_count_div_def split: if_splits)
  done

lemma batch_error_kind:
  "- (2 ^ 63) \<le> N \<Longrightarrow> N \<le> 0 \<Longrightarrow> simulate_imported_batch S N g = Inl e \<Longrightarrow> e = ValueError"
  unfolding simulate_imported_batch_def
  apply (simp only: Let_def split_beta)
  apply (erule bind_err_pair_InlE bind_err_InlE)+
  apply (auto simp: np_poisson_def np_binomial_def np_normal_array_def py_int_def
              split: if_splits option.splits)
  done

lemma batch_loop_fails:
  assumes "- (2 ^ 63) \<le> N" and "N \<le> 0"
  shows "batch_loop S N (Suc k) L g = Inl ValueError"
proof (cases "simulate_imported_batch S N g")
  case (Inl e)
  with batch_error_kind [OF assms Inl] show ?thesis by (simp add: bind_err_def)
next
  case (Inr r)
  with batch_returns_positive [OF Inr] assms(2) show ?thesis by simp
qed

lemma main_simulation_no_runs:
  "num_sims \<le> 0 \<Longrightarrow>
   main_simulation S num_sims N g
     = Inr (\<lparr>imported_mean_legit_fraction = None,
              imported_mean_counterfeit_fraction = None,
              local_mean_legit_fraction = None,
              local_mean_counterfeit_fraction = None,
              imported_legit_on_time = None,
              imported_counterfeit_on_time = None,
              local_legit_on_time = None,
              local_counterfeit_on_time = None\<rparr>, g)"
  by (simp add: main_simulation_def bind_err_def mc_lists0_def np_mean_def)

lemma main_simulation_reg_no_runs:
  "num_sims \<le> 0 \<Longrightarrow> main_simulation_reg S num_sims N g = Inr (([], []), g)"
  by (simp add: main_simulation_reg_def)

lemma batch_simulation_no_runs:
  "num_sims \<le> 0 \<Longrightarrow>
   batch_simulation S num_sims N g
     = Inr (\<lparr>batch_mean_legit_fraction = None,
              batch_mean_counterfeit_fraction = None,
              batch_legit_on_time = None,
              batch_counterfeit_on_time = None\<rparr>, g)"
  by (simp add: batch_simulation_def bind_err_def batch_lists0_def np_mean_def np_div_int_def)

lemma main_simulation_negative:
  "N < 0 \<Longrightarrow> \<exists>r. main_simulation S num_sims N g = Inr r"
  using main_simulation_raises [of S num_sims N g]
  by (cases "main_simulation S num_sims N g") auto

lemma main_simulation_reg_negative:
  "N < 0 \<Longrightarrow> \<exists>r. main_simulation_reg S num_sims N g = Inr r"
  using main_simulation_reg_raises [of S num_sims N g]
  by (cases "main_simulation_reg S num_sims N g") auto

lemma batch_simulation_fails:
  assumes "1 \<le> num_sims" and "- (2 ^ 63) \<le> N" and "N \<le> 0"
  shows "batch_simulation S num_sims N g = Inl ValueError"
proof -
  from assms(1) obtain k where k: "nat num_sims = Suc k"
    by (cases "nat num_sims") auto
  have "batch_loop S N (nat num_sims) batch_lists0 g = Inl ValueError"
    unfolding k by (rule batch_loop_fails [OF assms(2,3)])
  then show ?thesis by (simp add: batch_simulation_def bind_err_def)
qed

text \<open>
  C4, as stated, fails: no entry point checks its configuration.  With \<open>num_sims = 0\<close> all
  three return without an error (the means of empty lists are \<open>nan\<close>, the tables are empty),
  and \<^verbatim>\<open>main_simulation\<close> with \<open>N = -1\<close> returns a summary of zeros.
\<close>

theorem no_configuration_check_counterexample:
  "main_simulation scripted 0 10000 []
     = Inr (\<lparr>imported_mean_legit_fraction = None,
              imported_mean_counterfeit_fraction = None,
              local_mean_legit_fraction = None,
              local_mean_counterfeit_fraction = None,
              imported_legit_on_time = None,
              imported_counterfeit_on_time = None,
              local_legit_on_time = None,
              local_counterfeit_on_time = None\<rparr>, [])
   \<and> main_simulation scripted 1 (- 1) []
     = Inr (\<lparr>imported_mean_legit_fraction = Some 0,
              imported_mean_counterfeit_fraction = Some 0,
              local_mean_legit_fraction = Some 0,
              local_mean_counterfeit_fraction = Some 0,
              imported_legit_on_time = Some 0,
              imported_counterfeit_on_time = Some 0,
              local_legit_on_time = Some 0,
              local_counterfeit_on_time = Some 0\<rparr>, [])
   \<and> batch_simulation scripted 0 10000 []
     = Inr (\<lparr>batch_mean_legit_fraction = None,
              batch_mean_counterfeit_fraction = None,
              batch_legit_on_time = None,
              batch_counterfeit_on_time = None\<rparr>, [])
   \<and> main_simulation_reg scripted 0 10000 [] = Inr (([], []), [])"
  by code_simp

text \<open>
  C4, amended.  An invalid configuration is not rejected when the entry point is called.
  With \<open>num_sims \<le> 0\<close> no run is simulated and the entry point returns: \<^verbatim>\<open>main_simulation\<close>
  of \<^verbatim>\<open>distribution_mc.py\<close> a summary of \<open>nan\<close>, \<^verbatim>\<open>main_simulation\<close> of
  \<^verbatim>\<open>distribution_regression.py\<close> two empty tables, \<^verbatim>\<open>batch_simulation\<close> (for an \<open>N\<close> within
  the 64-bit integers) a summary of \<open>nan\<close>; the generator is not touched.  With
  \<open>num_sims \<ge> 1\<close>: both \<^verbatim>\<open>main_simulation\<close> return a result when \<open>N < 0\<close> and raise
  \<^verbatim>\<open>ZeroDivisionError\<close> when \<open>N = 0\<close>; \<^verbatim>\<open>batch_simulation\<close> raises \<^verbatim>\<open>ValueError\<close> when
  \<open>- 2^63 \<le> N \<le> 0\<close>.  Nothing is said here about a valid configuration.
\<close>

theorem invalid_configuration_not_rejected:
  "(num_sims \<le> 0 \<longrightarrow>
      main_simulation S num_sims N g
        = Inr (\<lparr>imported_mean_legit_fraction = None,
                 imported_mean_counterfeit_fraction = None,
                 local_mean_legit_fraction = None,
                 local_mean_counterfeit_fraction = None,
                 imported_legit_on_time = None,
                 imported_counterfeit_on_time = None,
                 local_legit_on_time = None,
                 local_counterfeit_on_time = None\<rparr>, g)
      \<and> main_simulation_reg S num_sims N g = Inr (([], []), g))
   \<and> (num_sims \<le> 0 \<and> - (2 ^ 63) \<le> N \<and> N < 2 ^ 63 \<longrightarrow>
      batch_simulation S num_sims N g
        = Inr (\<lparr>batch_mean_legit_fraction = None,
                 batch_mean_counterfeit_fraction = None,
                 batch_legit_on_time = None,
                 batch_counterfeit_on_time = None\<rparr>, g))
   \<and> (1 \<le> num_sims \<and> N < 0 \<longrightarrow>
      (\<exists>r. main_simulation S num_sims N g = Inr r)
      \<and> (\<exists>r. main_simulation_reg S num_sims N g = Inr r))
   \<and> (1 \<le> num_sims \<and> N = 0 \<longrightarrow>
      main_simulation S num_sims N g = Inl ZeroDivisionError
      \<and> main_simulation_reg S num_sims N g = Inl ZeroDivisionError)
   \<and> (1 \<le> num_sims \<and> - (2 ^ 63) \<le> N \<and> N \<le> 0 \<longrightarrow>
      batch_simulation S num_sims N g = Inl ValueError)"
proof (intro conjI impI)
  assume n: "num_sims \<le> 0"
  show "main_simulation S num_sims N g
        = Inr (\<lparr>imported_mean_legit_fraction = None,
                 imported_mean_counterfeit_fraction = None,
                 local_mean_legit_fraction = None,
                 local_mean_counterfeit_fraction = None,
                 imported_legit_on_time = None,
                 imported_counterfeit_on_time = None,
                 local_legit_on_time = None,
                 local_counterfeit_on_time = None\<rparr>, g)"
    by (rule main_simulation_no_runs [OF n])
  show "main_simulation_reg S num_sims N g = Inr (([], []), g)"
    by (rule main_simulation_reg_no_runs [OF n])
next
  assume "num_sims \<le> 0 \<and> - (2 ^ 63) \<le> N \<and> N < 2 ^ 63"
  then show "batch_simulation S num_sims N g
        = Inr (\<lparr>batch_mean_legit_fraction = None,
                 batch_mean_counterfeit_fraction = None,
                 batch_legit_on_time = None,
                 batch_counterfeit_on_time = None\<rparr>, g)"
    using batch_simulation_no_runs [of num_sims S N g] by blast
next
  assume a: "1 \<le> num_sims \<and> N < 0"
  then show "\<exists>r. main_simulation S num_sims N g = Inr r"
    using main_simulation_negative [of N S num_sims g] by blast
  from a show "\<exists>r. main_simulation_reg S num_sims N g = Inr r"
    using main_simulation_reg_negative [of N S num_sims g] by blast
next
  assume a: "1 \<le> num_sims \<and> N = 0"
  then show "main_simulation S num_sims N g = Inl ZeroDivisionError"
    using main_simulation_raises [of S num_sims N g ZeroDivisionError] by blast
  from a show "main_simulation_reg S num_sims N g = Inl ZeroDivisionError"
    using main_simulation_reg_raises [of S num_sims N g ZeroDivisionError] by blast
next
  assume "1 \<le> num_sims \<and> - (2 ^ 63) \<le> N \<and> N \<le> 0"
  then show "batch_simulation S num_sims N g = Inl ValueError"
    using batch_simulation_fails [of num_sims N S g] by blast
qed

theorem invalid_configuration_not_rejected_witness:
  "main_simulation_reg scripted 0 10000 [0.5] = Inr (([], []), [0.5])
   \<and> batch_simulation scripted 0 10000 [0.5]
       = Inr (\<lparr>batch_mean_legit_fraction = None,
                batch_mean_counterfeit_fraction = None,
                batch_legit_on_time = None,
                batch_counterfeit_on_time = None\<rparr>, [0.5])
   \<and> (\<exists>r. main_simulation scripted 3 (- 5) [0.5] = Inr r)
   \<and> main_simulation scripted 3 0 [0.5] = Inl ZeroDivisionError
   \<and> main_simulation_reg scripted 3 0 [0.5] = Inl ZeroDivisionError
   \<and> batch_simulation scripted 3 0 [0.5] = Inl ValueError
   \<and> batch_simulation scripted 3 (- 5) [0.5] = Inl ValueError"
  using invalid_configuration_not_rejected
          [where S = scripted and num_sims = 0 and N = 10000 and g = "[0.5]"]
    invalid_configuration_not_rejected
          [where S = scripted and num_sims = 3 and N = "- 5" and g = "[0.5]"]
    invalid_configuration_not_rejected
          [where S = scripted and num_sims = 3 and N = 0 and g = "[0.5]"]
  by simp

section \<open>One shipment under a larger warehouse-theft probability\<close>

text \<open>
  From the same generator state, a shipment that reaches the arrival check under the larger
  warehouse-theft probability has exactly the same journey under the smaller one: raising
  the probability can only remove a shipment from the arrivals, never add one.  This is a
  statement about one shipment; over a whole run a theft ends the stop loop early, and every
  later shipment then reads different draws.
\<close>

lemma journey_stops_antitone:
  "p \<le> p' \<Longrightarrow> fst (journey_stops S p' n t g) \<noteq> None \<Longrightarrow>
   journey_stops S p n t g = journey_stops S p' n t g"
  by (induction n arbitrary: t g) (auto simp: split_beta Let_def split: if_splits)

lemma journey_imported_antitone:
  assumes "p_warehouse_theft P \<le> p'"
    and "snd (fst (journey_imported S (P\<lparr>p_warehouse_theft := p'\<rparr>) g)) = Arrival_check t"
  shows "journey_imported S P g = journey_imported S (P\<lparr>p_warehouse_theft := p'\<rparr>) g"
  using assms(2)
  by (auto simp: journey_imported_def split_beta Let_def journey_stops_antitone [OF assms(1)]
           split: if_splits option.splits)

lemma journey_local_antitone:
  assumes "p_warehouse_theft_local P \<le> p'"
    and "snd (fst (journey_local S (P\<lparr>p_warehouse_theft_local := p'\<rparr>) g)) = Arrival_check t"
  shows "journey_local S P g = journey_local S (P\<lparr>p_warehouse_theft_local := p'\<rparr>) g"
  using assms(2)
  by (auto simp: journey_local_def split_beta Let_def journey_stops_antitone [OF assms(1)]
           split: if_splits option.splits)

end
